theory Spec2Isabelle
  imports Complex_Main
begin

section \<open>Python values used by the commission platform\<close>

text \<open>
  The development embeds the rule store (\<^verbatim>\<open>src/src/managers.py\<close>), the commission
  validator (\<^verbatim>\<open>src/src/validators.py\<close>) and the batch metrics
  (\<^verbatim>\<open>src/src/analyzers.py\<close>) of the commission platform.

  Conventions of the embedding:
  \<^item> a Python \<^verbatim>\<open>str\<close> is the list of its Unicode code points; \<open>str\<close> turns an ASCII
    literal into such a list;
  \<^item> a Python \<^verbatim>\<open>float\<close> is an IEEE 754 binary64 value, with its signed zeros,
    infinities and NaN; products and differences are rounded to nearest, ties to even;
  \<^item> a Python \<^verbatim>\<open>int\<close> is an unbounded integer;
  \<^item> a Python \<^verbatim>\<open>dict\<close> is an association list in insertion order;
  \<^item> a raised exception is the left summand of the result.
\<close>

type_synonym py_str = "nat list"

definition str :: "string \<Rightarrow> py_str" where
  "str s = map of_char s"

text \<open>
  The code points that \<^verbatim>\<open>str.strip()\<close> removes (those for which \<^verbatim>\<open>str.isspace\<close>
  holds): the ASCII controls 9 to 13 and 28 to 31, the space, U+0085, U+00A0, U+1680,
  U+2000 to U+200A, U+2028, U+2029, U+202F, U+205F and U+3000.
\<close>

definition isspace :: "nat \<Rightarrow> bool" where
  "isspace c \<longleftrightarrow>
     (9 \<le> c \<and> c \<le> 13) \<or> (28 \<le> c \<and> c \<le> 32) \<or> c = 133 \<or> c = 160 \<or> c = 5760 \<or>
     (8192 \<le> c \<and> c \<le> 8202) \<or> c = 8232 \<or> c = 8233 \<or> c = 8239 \<or> c = 8287 \<or>
     c = 12288"

definition strip :: "py_str \<Rightarrow> py_str" where
  "strip s = rev (dropWhile isspace (rev (dropWhile isspace s)))"

text \<open>The two emoji that start the rule store's messages: U+2705 and U+274C.\<close>

definition check_mark :: py_str where
  "check_mark = [9989]"

definition cross_mark :: py_str where
  "cross_mark = [10060]"

datatype py_error = AttributeError | KeyError | OverflowError | ValueError

subsection \<open>Binary64 floating point\<close>

text \<open>
  \<open>Finite s m e\<close> is the number \<open>m * 2 ^ e\<close>, negative when \<open>s\<close> holds. The doubles
  are the values with \<open>m < 2 ^ 53\<close> and \<open>- 1074 \<le> e \<le> 971\<close> in which \<open>2 ^ 52 \<le> m\<close>
  (a normal number) or \<open>e = - 1074\<close> (a subnormal number or a zero).
\<close>

datatype double = Finite bool nat int | Infinity bool | NaN

definition valid_double :: "double \<Rightarrow> bool" where
  "valid_double x =
     (case x of
        Finite s m e \<Rightarrow> m < 2 ^ 53 \<and> - 1074 \<le> e \<and> e \<le> 971 \<and> (2 ^ 52 \<le> m \<or> e = - 1074)
      | Infinity s \<Rightarrow> True
      | NaN \<Rightarrow> True)"

definition pow2 :: "int \<Rightarrow> real" where
  "pow2 e = (if 0 \<le> e then 2 ^ nat e else 1 / 2 ^ nat (- e))"

fun double_value :: "double \<Rightarrow> real" where
  "double_value (Finite s m e) = (if s then - (of_nat m * pow2 e) else of_nat m * pow2 e)"
| "double_value (Infinity s) = 0"
| "double_value NaN = 0"

text \<open>The number of binary digits of a natural number.\<close>

function bitlen :: "nat \<Rightarrow> nat" where
  "bitlen n = (if n = 0 then 0 else Suc (bitlen (n div 2)))"
  by pat_completeness auto
termination
  by (relation "measure id") auto

declare bitlen.simps [simp del]

text \<open>
  \<open>round_shift n k\<close> is \<open>n / 2 ^ k\<close> rounded to the nearest integer, a tie going to the
  even neighbour.
\<close>

definition half_even :: "nat \<Rightarrow> nat \<Rightarrow> nat \<Rightarrow> nat" where
  "half_even q r h = (if h < r \<or> (r = h \<and> odd q) then q + 1 else q)"

definition round_shift :: "nat \<Rightarrow> nat \<Rightarrow> nat" where
  "round_shift n k = half_even (n div 2 ^ k) (n mod 2 ^ k) (2 ^ (k - 1))"

text \<open>
  \<open>round_double s n e\<close> is the double nearest to \<open>n * 2 ^ e\<close> (with sign \<open>s\<close>), ties to
  even: the digits below the 53rd, or below \<open>2 ^ - 1074\<close>, are rounded away
  (\<open>round_at\<close>), a carry out of the 53 digits moves the exponent, and a result beyond
  the largest double is an infinity (\<open>pack\<close>).
\<close>

definition pack :: "bool \<Rightarrow> nat \<Rightarrow> int \<Rightarrow> double" where
  "pack s m e =
     (if m = 2 ^ 53 then (if 971 < e + 1 then Infinity s else Finite s (2 ^ 52) (e + 1))
      else if 971 < e then Infinity s
      else Finite s m e)"

definition round_at :: "bool \<Rightarrow> nat \<Rightarrow> int \<Rightarrow> int \<Rightarrow> double" where
  "round_at s n e e1 =
     pack s (if e1 \<le> e then n * 2 ^ nat (e - e1) else round_shift n (nat (e1 - e))) e1"

definition round_double :: "bool \<Rightarrow> nat \<Rightarrow> int \<Rightarrow> double" where
  "round_double s n e =
     (if n = 0 then Finite s 0 (- 1074)
      else round_at s n e (max (e + int (bitlen n) - 53) (- 1074)))"

definition signed :: "bool \<Rightarrow> nat \<Rightarrow> int" where
  "signed s m = (if s then - int m else int m)"

text \<open>An exact integer multiple \<open>t * 2 ^ e\<close>; \<open>z\<close> is the sign of a zero result.\<close>

definition round_signed :: "int \<Rightarrow> int \<Rightarrow> bool \<Rightarrow> double" where
  "round_signed t e z =
     (if t = 0 then Finite z 0 (- 1074) else round_double (t < 0) (nat \<bar>t\<bar>) e)"

fun double_mul :: "double \<Rightarrow> double \<Rightarrow> double" where
  "double_mul (Finite s1 m1 e1) (Finite s2 m2 e2) = round_double (s1 \<noteq> s2) (m1 * m2) (e1 + e2)"
| "double_mul (Finite s1 m1 e1) (Infinity s2) = (if m1 = 0 then NaN else Infinity (s1 \<noteq> s2))"
| "double_mul (Infinity s1) (Finite s2 m2 e2) = (if m2 = 0 then NaN else Infinity (s1 \<noteq> s2))"
| "double_mul (Infinity s1) (Infinity s2) = Infinity (s1 \<noteq> s2)"
| "double_mul NaN y = NaN"
| "double_mul x NaN = NaN"

fun double_add :: "double \<Rightarrow> double \<Rightarrow> double" where
  "double_add (Finite s1 m1 e1) (Finite s2 m2 e2) =
     round_signed
       (signed s1 m1 * 2 ^ nat (e1 - min e1 e2) + signed s2 m2 * 2 ^ nat (e2 - min e1 e2))
       (min e1 e2) (m1 = 0 \<and> m2 = 0 \<and> s1 \<and> s2)"
| "double_add (Finite s1 m1 e1) (Infinity s2) = Infinity s2"
| "double_add (Infinity s1) (Finite s2 m2 e2) = Infinity s1"
| "double_add (Infinity s1) (Infinity s2) = (if s1 = s2 then Infinity s1 else NaN)"
| "double_add NaN y = NaN"
| "double_add x NaN = NaN"

fun double_neg :: "double \<Rightarrow> double" where
  "double_neg (Finite s m e) = Finite (\<not> s) m e"
| "double_neg (Infinity s) = Infinity (\<not> s)"
| "double_neg NaN = NaN"

definition double_sub :: "double \<Rightarrow> double \<Rightarrow> double" where
  "double_sub x y = double_add x (double_neg y)"

fun double_abs :: "double \<Rightarrow> double" where
  "double_abs (Finite s m e) = Finite False m e"
| "double_abs (Infinity s) = Infinity False"
| "double_abs NaN = NaN"

text \<open>
  The float literals of the source, each the double nearest to the decimal written:
  \<^verbatim>\<open>0.05\<close>, \<^verbatim>\<open>0.07\<close>, \<^verbatim>\<open>0.10\<close>, \<^verbatim>\<open>1.2\<close>, \<^verbatim>\<open>1.1\<close>, \<^verbatim>\<open>0.001\<close> and \<^verbatim>\<open>0.15\<close>.
\<close>

definition float_0_05 :: double where
  "float_0_05 = Finite False 7205759403792794 (- 57)"

definition float_0_07 :: double where
  "float_0_07 = Finite False 5044031582654956 (- 56)"

definition float_0_10 :: double where
  "float_0_10 = Finite False 7205759403792794 (- 56)"

definition float_1_2 :: double where
  "float_1_2 = Finite False 5404319552844595 (- 52)"

definition float_1_1 :: double where
  "float_1_1 = Finite False 4953959590107546 (- 52)"

definition float_0_001 :: double where
  "float_0_001 = Finite False 4611686018427388 (- 62)"

definition float_0_15 :: double where
  "float_0_15 = Finite False 5404319552844595 (- 55)"

subsection \<open>Numbers\<close>

text \<open>
  A number is a Python int or a Python float. \<^verbatim>\<open>float(x)\<close> rounds an int to the
  nearest double and raises \<^verbatim>\<open>OverflowError\<close> when that is beyond the largest double;
  \<^verbatim>\<open>int(x)\<close> truncates a float towards zero and raises \<^verbatim>\<open>ValueError\<close> for NaN and
  \<^verbatim>\<open>OverflowError\<close> for an infinity.
\<close>

datatype py_num = PyInt int | PyFloat double

definition float_of_int :: "int \<Rightarrow> py_error + double" where
  "float_of_int n =
     (case round_double (n < 0) (nat \<bar>n\<bar>) 0 of
        Infinity s \<Rightarrow> Inl OverflowError
      | Finite s m e \<Rightarrow> Inr (Finite s m e)
      | NaN \<Rightarrow> Inr NaN)"

fun py_float :: "py_num \<Rightarrow> py_error + double" where
  "py_float (PyInt n) = float_of_int n"
| "py_float (PyFloat x) = Inr x"

fun py_int :: "py_num \<Rightarrow> py_error + int" where
  "py_int (PyInt n) = Inr n"
| "py_int (PyFloat (Finite s m e)) =
     Inr (signed s (if 0 \<le> e then m * 2 ^ nat e else m div 2 ^ nat (- e)))"
| "py_int (PyFloat (Infinity s)) = Inl OverflowError"
| "py_int (PyFloat NaN) = Inl ValueError"

text \<open>
  \<^verbatim>\<open>x * y\<close> and \<^verbatim>\<open>x - y\<close> with a float \<open>y\<close>: an int \<open>x\<close> is converted to float first.
\<close>

definition mul_float :: "py_num \<Rightarrow> double \<Rightarrow> py_error + double" where
  "mul_float x y = (case py_float x of Inl err \<Rightarrow> Inl err | Inr d \<Rightarrow> Inr (double_mul d y))"

definition sub_float :: "py_num \<Rightarrow> double \<Rightarrow> py_error + double" where
  "sub_float x y = (case py_float x of Inl err \<Rightarrow> Inl err | Inr d \<Rightarrow> Inr (double_sub d y))"

text \<open>
  \<^verbatim>\<open>x < y\<close> compares the exact values, also between an int and a float; every
  comparison with NaN is false.
\<close>

fun num_value :: "py_num \<Rightarrow> real" where
  "num_value (PyInt n) = of_int n"
| "num_value (PyFloat x) = double_value x"

fun num_rank :: "py_num \<Rightarrow> int" where
  "num_rank (PyFloat (Infinity s)) = (if s then - 1 else 1)"
| "num_rank x = 0"

fun is_nan :: "py_num \<Rightarrow> bool" where
  "is_nan (PyFloat NaN) = True"
| "is_nan x = False"

definition py_less :: "py_num \<Rightarrow> py_num \<Rightarrow> bool" where
  "py_less x y \<longleftrightarrow>
     \<not> is_nan x \<and> \<not> is_nan y \<and>
     (num_rank x < num_rank y \<or> (num_rank x = 0 \<and> num_rank y = 0 \<and> num_value x < num_value y))"

definition py_greater :: "py_num \<Rightarrow> py_num \<Rightarrow> bool" where
  "py_greater x y = py_less y x"

subsection \<open>Dictionaries in insertion order\<close>

definition dict_contains :: "'k \<Rightarrow> ('k \<times> 'v) list \<Rightarrow> bool" where
  "dict_contains k d \<longleftrightarrow> k \<in> set (map fst d)"

definition dict_getitem :: "('k \<times> 'v) list \<Rightarrow> 'k \<Rightarrow> py_error + 'v" where
  "dict_getitem d k = (case map_of d k of None \<Rightarrow> Inl KeyError | Some v \<Rightarrow> Inr v)"

text \<open>\<^verbatim>\<open>d[k] = v\<close>: an existing key keeps its position, a new key goes last.\<close>

fun dict_setitem :: "('k \<times> 'v) list \<Rightarrow> 'k \<Rightarrow> 'v \<Rightarrow> ('k \<times> 'v) list" where
  "dict_setitem [] k v = [(k, v)]"
| "dict_setitem ((k', v') # d) k v =
     (if k' = k then (k, v) # d else (k', v') # dict_setitem d k v)"

text \<open>\<^verbatim>\<open>del d[k]\<close>: raises \<^verbatim>\<open>KeyError\<close> when the key is absent.\<close>

fun dict_delitem :: "('k \<times> 'v) list \<Rightarrow> 'k \<Rightarrow> py_error + ('k \<times> 'v) list" where
  "dict_delitem [] k = Inl KeyError"
| "dict_delitem ((k', v') # d) k =
     (if k' = k then Inr d
      else (case dict_delitem d k of Inl e \<Rightarrow> Inl e | Inr d' \<Rightarrow> Inr ((k', v') # d')))"

section \<open>The rule store: \<^verbatim>\<open>RulesManager\<close>\<close>

text \<open>
  A tier's entry holds the rate as a float and the threshold as an int: that is what
  \<^verbatim>\<open>add_rule\<close> stores and what the default policy set holds.
\<close>

record rule =
  rate :: double
  threshold :: int

type_synonym rules = "(py_str \<times> rule) list"

text \<open>
  \<^verbatim>\<open>st.session_state\<close>: the key \<^verbatim>\<open>commission_rules\<close> is absent (\<open>None\<close>) or holds the
  policy set. Reading an absent key raises \<^verbatim>\<open>AttributeError\<close>.
\<close>

record session_state =
  commission_rules :: "rules option"

definition default_rules :: rules where
  "default_rules =
     [(str ''standard'', \<lparr>rate = float_0_05, threshold = 0\<rparr>),
      (str ''premium'', \<lparr>rate = float_0_07, threshold = 100000\<rparr>),
      (str ''enterprise'', \<lparr>rate = float_0_10, threshold = 500000\<rparr>)]"

definition initialize_rules :: "session_state \<Rightarrow> session_state" where
  "initialize_rules st =
     (case commission_rules st of
        None \<Rightarrow> st\<lparr>commission_rules := Some default_rules\<rparr>
      | Some _ \<Rightarrow> st)"

definition get_rules :: "session_state \<Rightarrow> py_error + rules" where
  "get_rules st =
     (case commission_rules st of None \<Rightarrow> Inl AttributeError | Some rs \<Rightarrow> Inr rs)"

definition msg_added :: "py_str \<Rightarrow> py_str" where
  "msg_added tier_name =
     check_mark @ str '' Successfully added '' @ [39] @ tier_name @ [39] @ str '' tier!''"

definition msg_enter_name :: py_str where
  "msg_enter_name = cross_mark @ str '' Please enter a tier name!''"

definition msg_exists :: "py_str \<Rightarrow> py_str" where
  "msg_exists tier_name =
     cross_mark @ str '' Rule '' @ [39] @ tier_name @ [39] @ str '' already exists!''"

definition msg_removed :: "py_str \<Rightarrow> py_str" where
  "msg_removed tier_name =
     check_mark @ str '' Successfully removed '' @ [39] @ tier_name @ [39] @ str '' tier!''"

definition msg_not_found :: "py_str \<Rightarrow> py_str" where
  "msg_not_found tier_name =
     cross_mark @ str '' Rule '' @ [39] @ tier_name @ [39] @ str '' not found!''"

definition msg_last_rule :: py_str where
  "msg_last_rule =
     cross_mark @ str '' Cannot remove the last rule! You need at least one commission tier.''"

text \<open>
  \<^verbatim>\<open>add_rule\<close>. The first condition is \<^verbatim>\<open>tier_name.strip() and tier_name not in rules\<close>:
  the session state is read only when the stripped name is non-empty. The new entry is
  built before it is assigned, \<^verbatim>\<open>float(rate)\<close> first and \<^verbatim>\<open>int(threshold)\<close> second, and
  either conversion can raise. The result is the returned pair together with the
  session state after the call; no assignment precedes a raise, so an exception leaves
  the state as it was.
\<close>

definition add_rule ::
  "session_state \<Rightarrow> py_str \<Rightarrow> py_num \<Rightarrow> py_num \<Rightarrow>
     py_error + ((bool \<times> py_str) \<times> session_state)" where
  "add_rule st tier_name rate_arg threshold_arg =
     (if strip tier_name \<noteq> [] then
        (case get_rules st of
           Inl e \<Rightarrow> Inl e
         | Inr rs \<Rightarrow>
            if \<not> dict_contains tier_name rs then
              (case py_float rate_arg of
                 Inl e \<Rightarrow> Inl e
               | Inr new_rate \<Rightarrow>
                  (case py_int threshold_arg of
                     Inl e \<Rightarrow> Inl e
                   | Inr new_threshold \<Rightarrow>
                      Inr ((True, msg_added tier_name),
                           st\<lparr>commission_rules :=
                                Some (dict_setitem rs tier_name
                                        \<lparr>rate = new_rate, threshold = new_threshold\<rparr>)\<rparr>)))
            else if strip tier_name = [] then Inr ((False, msg_enter_name), st)
            else Inr ((False, msg_exists tier_name), st))
      else if strip tier_name = [] then Inr ((False, msg_enter_name), st)
      else Inr ((False, msg_exists tier_name), st))"

definition remove_rule ::
  "session_state \<Rightarrow> py_str \<Rightarrow> py_error + ((bool \<times> py_str) \<times> session_state)" where
  "remove_rule st tier_name =
     (case get_rules st of
        Inl e \<Rightarrow> Inl e
      | Inr rs \<Rightarrow>
         if length rs > 1 then
           (if dict_contains tier_name rs then
              (case dict_delitem rs tier_name of
                 Inl e \<Rightarrow> Inl e
               | Inr rs' \<Rightarrow>
                  Inr ((True, msg_removed tier_name), st\<lparr>commission_rules := Some rs'\<rparr>))
            else Inr ((False, msg_not_found tier_name), st))
         else Inr ((False, msg_last_rule), st))"

definition get_rules_list :: "session_state \<Rightarrow> py_error + py_str list" where
  "get_rules_list st =
     (case get_rules st of Inl e \<Rightarrow> Inl e | Inr rs \<Rightarrow> Inr (map fst rs))"

section \<open>The validator: \<^verbatim>\<open>CommissionValidator\<close>\<close>

text \<open>
  A row of the data frame, as \<^verbatim>\<open>iterrows\<close> hands it over: the numeric cells are
  Python ints or floats, a blank numeric cell being the float NaN.
\<close>

record row =
  deal_id :: py_str
  sales_rep :: py_str
  region :: py_str
  product_tier :: py_str
  deal_size :: py_num
  commission_rate :: py_num
  commission_amount :: py_num

subsection \<open>Formatting with \<^verbatim>\<open>:.3f\<close>\<close>

function str_nat :: "nat \<Rightarrow> py_str" where
  "str_nat n = (if n < 10 then [48 + n] else str_nat (n div 10) @ [48 + n mod 10])"
  by pat_completeness auto
termination
  by (relation "measure id") auto

declare str_nat.simps [simp del]

text \<open>The decimal digits of \<open>q / 1000\<close> with three digits after the point.\<close>

definition fixed3 :: "nat \<Rightarrow> py_str" where
  "fixed3 q =
     str_nat (q div 1000) @ str ''.'' @ [48 + q div 100 mod 10, 48 + q div 10 mod 10, 48 + q mod 10]"

text \<open>
  \<^verbatim>\<open>f"{x:.3f}"\<close> for a float: the sign, then the exact value rounded to the nearest
  multiple of 0.001 (ties to even); \<^verbatim>\<open>nan\<close>, \<^verbatim>\<open>inf\<close> and \<^verbatim>\<open>-inf\<close> for the special
  values. An int is converted to float first.
\<close>

fun format_3f :: "double \<Rightarrow> py_str" where
  "format_3f (Finite s m e) =
     (if s then str ''-'' else []) @
     fixed3 (if 0 \<le> e then m * 1000 * 2 ^ nat e else round_shift (m * 1000) (nat (- e)))"
| "format_3f (Infinity s) = (if s then str ''-inf'' else str ''inf'')"
| "format_3f NaN = str ''nan''"

definition format_num_3f :: "py_num \<Rightarrow> py_error + py_str" where
  "format_num_3f x = (case py_float x of Inl err \<Rightarrow> Inl err | Inr d \<Rightarrow> Inr (format_3f d))"

subsection \<open>Issues\<close>

definition msg_unknown_tier :: "py_str \<Rightarrow> py_str" where
  "msg_unknown_tier tier = str ''Unknown product tier: '' @ tier"

definition msg_rate_mismatch :: "double \<Rightarrow> py_num \<Rightarrow> py_error + py_str" where
  "msg_rate_mismatch expected_rate actual_rate =
     (case format_num_3f actual_rate of
        Inl err \<Rightarrow> Inl err
      | Inr got \<Rightarrow>
         Inr (str ''Rate mismatch: expected '' @ format_3f expected_rate @ str '', got '' @ got))"

definition msg_cap :: py_str where
  "msg_cap = str ''Commission exceeds 15% cap''"

definition msg_negative :: py_str where
  "msg_negative = str ''Negative deal size''"

subsection \<open>\<^verbatim>\<open>_get_expected_rate\<close> and \<^verbatim>\<open>validate\<close>\<close>

text \<open>
  \<^verbatim>\<open>rules[product_tier]['threshold'] * 1.2\<close> converts the int threshold to float and
  multiplies; \<^verbatim>\<open>deal_size > ...\<close> compares the deal size with that product.
\<close>

definition get_expected_rate ::
  "session_state \<Rightarrow> py_num \<Rightarrow> py_str \<Rightarrow> py_error + double" where
  "get_expected_rate st dsize tier =
     (case get_rules st of
        Inl e \<Rightarrow> Inl e
      | Inr rs \<Rightarrow>
         (case dict_getitem rs tier of
            Inl e \<Rightarrow> Inl e
          | Inr r \<Rightarrow>
             (case mul_float (PyInt (threshold r)) float_1_2 of
                Inl e \<Rightarrow> Inl e
              | Inr limit \<Rightarrow>
                 if py_greater dsize (PyFloat limit) then Inr (double_mul (rate r) float_1_1)
                 else Inr (rate r))))"

definition validate :: "session_state \<Rightarrow> row \<Rightarrow> py_error + py_str list" where
  "validate st r =
     (case get_rules st of
        Inl e \<Rightarrow> Inl e
      | Inr rs \<Rightarrow>
         if \<not> dict_contains (product_tier r) rs then Inr [msg_unknown_tier (product_tier r)]
         else
           (case get_expected_rate st (deal_size r) (product_tier r) of
              Inl e \<Rightarrow> Inl e
            | Inr expected_rate \<Rightarrow>
               (case sub_float (commission_rate r) expected_rate of
                  Inl e \<Rightarrow> Inl e
                | Inr diff \<Rightarrow>
                   (case (if py_greater (PyFloat (double_abs diff)) (PyFloat float_0_001)
                          then (case msg_rate_mismatch expected_rate (commission_rate r) of
                                  Inl e \<Rightarrow> Inl e
                                | Inr msg \<Rightarrow> Inr [msg])
                          else Inr []) of
                      Inl e \<Rightarrow> Inl e
                    | Inr issues1 \<Rightarrow>
                       (case mul_float (deal_size r) float_0_15 of
                          Inl e \<Rightarrow> Inl e
                        | Inr cap \<Rightarrow>
                           Inr (issues1 @
                                (if py_greater (commission_amount r) (PyFloat cap) then [msg_cap]
                                 else []) @
                                (if py_less (deal_size r) (PyInt 0) then [msg_negative]
                                 else [])))))))"


text \<open>
  The number of issues of a record (\<^verbatim>\<open>'issue_count': len(issues)\<close> in the same
  method); a call that raises reports none.
\<close>

definition issue_count :: "session_state \<Rightarrow> row \<Rightarrow> nat" where
  "issue_count st r = (case validate st r of Inl _ \<Rightarrow> 0 | Inr issues \<Rightarrow> length issues)"

section \<open>Batch metrics: \<^verbatim>\<open>DataAnalyzer.calculate_metrics\<close>\<close>




section \<open>Sequences of rule-store operations\<close>

text \<open>
  A caller's sequence of \<^verbatim>\<open>add_rule\<close> and \<^verbatim>\<open>remove_rule\<close> calls, run in order on the
  session state. A call that raises has assigned nothing, so the session state after
  it is the session state before it, and the next call runs on that state.
\<close>

datatype operation = Add_rule py_str py_num py_num | Remove_rule py_str

fun apply_operation :: "session_state \<Rightarrow> operation \<Rightarrow> session_state" where
  "apply_operation st (Add_rule tier_name rate_arg threshold_arg) =
     (case add_rule st tier_name rate_arg threshold_arg of
        Inl e \<Rightarrow> st
      | Inr (_, st') \<Rightarrow> st')"
| "apply_operation st (Remove_rule tier_name) =
     (case remove_rule st tier_name of
        Inl e \<Rightarrow> st
      | Inr (_, st') \<Rightarrow> st')"

fun run_operations :: "session_state \<Rightarrow> operation list \<Rightarrow> session_state" where
  "run_operations st [] = st"
| "run_operations st (x # xs) = run_operations (apply_operation st x) xs"

text \<open>The policy set exists, is not empty and has no tier name twice.\<close>

definition policy_invariant :: "session_state \<Rightarrow> bool" where
  "policy_invariant st =
     (case commission_rules st of
        None \<Rightarrow> False
      | Some rs \<Rightarrow> rs \<noteq> [] \<and> distinct (map fst rs))"

section \<open>Example data\<close>

text \<open>
  The session state with the default policy set, and records of the tier
  \<^verbatim>\<open>standard\<close> (rate 0.05, threshold 0):
  \<^item> deal size 10000, rate 0.05, amount 2000;
  \<^item> deal size 0, rate 0.049, amount 0;
  \<^item> deal size 3, rate 0.055, amount 0.45;
  \<^item> deal size 50000, rate 0.055, amount 2750.
  The doubles are those of the decimals written.
\<close>

definition default_state :: session_state where
  "default_state = \<lparr>commission_rules = Some default_rules\<rparr>"

definition float_0_049 :: double where
  "float_0_049 = Finite False 7061644215716938 (- 57)"

definition float_0_055 :: double where
  "float_0_055 = Finite False 7926335344172073 (- 57)"

definition float_0_45 :: double where
  "float_0_45 = Finite False 8106479329266893 (- 54)"


definition deal_rate_0_049 :: row where
  "deal_rate_0_049 =
     \<lparr>deal_id = str ''DEAL_0002'', sales_rep = str ''Sarah Chen'', region = str ''Europe'',
      product_tier = str ''standard'', deal_size = PyInt 0,
      commission_rate = PyFloat float_0_049, commission_amount = PyInt 0\<rparr>"

definition deal_cap_0_45 :: row where
  "deal_cap_0_45 =
     \<lparr>deal_id = str ''DEAL_0003'', sales_rep = str ''Sarah Chen'', region = str ''Europe'',
      product_tier = str ''standard'', deal_size = PyInt 3,
      commission_rate = PyFloat float_0_055, commission_amount = PyFloat float_0_45\<rparr>"


text \<open>The tier of the accelerator boundary: rate 0.05, threshold 100000.\<close>

definition boundary_state :: session_state where
  "boundary_state =
     \<lparr>commission_rules = Some [(str ''premium'', \<lparr>rate = float_0_05, threshold = 100000\<rparr>)]\<rparr>"

text \<open>A policy set whose only tier has a threshold beyond the range of float.\<close>

definition jumbo_threshold :: int where
  "jumbo_threshold = 10 ^ 400"

definition jumbo_state :: session_state where
  "jumbo_state =
     \<lparr>commission_rules =
        Some [(str ''jumbo'', \<lparr>rate = float_0_05, threshold = jumbo_threshold\<rparr>)]\<rparr>"


section \<open>Properties of the dictionary operations\<close>

lemma dict_contains_Nil: "\<not> dict_contains k []"
  by (simp add: dict_contains_def)

lemma dict_contains_Cons: "dict_contains k ((k', v) # d) \<longleftrightarrow> k' = k \<or> dict_contains k d"
  by (auto simp: dict_contains_def)


lemma dict_setitem_new: "\<not> dict_contains k d \<Longrightarrow> dict_setitem d k v = d @ [(k, v)]"
  by (induction d) (auto simp: dict_contains_Cons)

lemma map_of_dict_setitem: "map_of (dict_setitem d k v) = (map_of d)(k \<mapsto> v)"
  by (induction d) (auto simp: fun_eq_iff)

lemma keys_dict_setitem:
  "map fst (dict_setitem d k v) = (if dict_contains k d then map fst d else map fst d @ [k])"
  by (induction d) (auto simp: dict_contains_Cons dict_contains_Nil)

lemma distinct_dict_setitem:
  "distinct (map fst d) \<Longrightarrow> distinct (map fst (dict_setitem d k v))"
  by (simp add: keys_dict_setitem dict_contains_def)

lemma dict_setitem_not_Nil: "dict_setitem d k v \<noteq> []"
  by (cases d) (auto split: if_splits)

lemma dict_delitem_present:
  "dict_contains k d \<Longrightarrow>
     \<exists>d'. dict_delitem d k = Inr d' \<and> map fst d' = remove1 k (map fst d) \<and>
          length d' + 1 = length d"
  by (induction d) (auto simp: dict_contains_Cons dict_contains_Nil)

lemma dict_delitem_absent: "\<not> dict_contains k d \<Longrightarrow> dict_delitem d k = Inl KeyError"
  by (induction d) (auto simp: dict_contains_Cons)

lemma map_of_dict_delitem:
  "distinct (map fst d) \<Longrightarrow> dict_delitem d k = Inr d' \<Longrightarrow> map_of d' = (map_of d)(k := None)"
proof (induction d arbitrary: d')
  case Nil
  then show ?case by simp
next
  case (Cons p d)
  obtain k' v' where p: "p = (k', v')" by (cases p)
  show ?case
  proof (cases "k' = k")
    case True
    with Cons.prems p have "d' = d" and "map_of d k = None"
      by (auto simp: map_of_eq_None_iff)
    with True p show ?thesis by (auto simp: fun_eq_iff)
  next
    case False
    with Cons.prems p obtain d'' where d'': "dict_delitem d k = Inr d''" "d' = (k', v') # d''"
      by (auto split: sum.splits)
    with Cons.IH [of d''] Cons.prems(1) p False show ?thesis
      by (auto simp: fun_eq_iff)
  qed
qed

section \<open>Properties of the string operations\<close>

text \<open>\<^verbatim>\<open>s.strip()\<close> is empty exactly when every code point of \<open>s\<close> is whitespace.\<close>

lemma strip_empty_iff: "strip s = [] \<longleftrightarrow> (\<forall>c \<in> set s. isspace c)"
proof (cases "dropWhile isspace s = []")
  case True
  then have "\<forall>c \<in> set s. isspace c"
    by simp
  moreover have "strip s = []"
    unfolding strip_def True by simp
  ultimately show ?thesis by simp
next
  case False
  then have "\<not> isspace (hd (dropWhile isspace s))"
    by (rule hd_dropWhile)
  moreover from False have "hd (dropWhile isspace s) \<in> set (dropWhile isspace s)"
    by simp
  ultimately have "strip s \<noteq> []"
    by (auto simp: strip_def)
  moreover from False have "\<not> (\<forall>c \<in> set s. isspace c)"
    by simp
  ultimately show ?thesis by simp
qed

section \<open>The rule store\<close>

lemma get_rules_Some: "commission_rules st = Some rs \<Longrightarrow> get_rules st = Inr rs"
  by (simp add: get_rules_def)

subsection \<open>Initialization\<close>

text \<open>
  C9. \<^verbatim>\<open>_initialize_rules\<close> is idempotent: from any session state, running it twice
  gives the state that running it once gives. A session state that already holds a
  policy set is returned as it is, and a session state without one gets the default
  policy set.
\<close>

theorem initialize_rules_idempotent:
  "initialize_rules (initialize_rules st) = initialize_rules st \<and>
   (\<forall>rs. commission_rules st = Some rs \<longrightarrow> initialize_rules st = st) \<and>
   (commission_rules st = None \<longrightarrow>
      initialize_rules st = st\<lparr>commission_rules := Some default_rules\<rparr>)"
  by (cases "commission_rules st") (simp_all add: initialize_rules_def)

theorem initialize_rules_idempotent_witness:
  "initialize_rules (initialize_rules \<lparr>commission_rules = None\<rparr>) =
     \<lparr>commission_rules = Some default_rules\<rparr> \<and>
   initialize_rules \<lparr>commission_rules = Some [(str ''gold'', \<lparr>rate = float_0_07, threshold = 10\<rparr>)]\<rparr> =
     \<lparr>commission_rules = Some [(str ''gold'', \<lparr>rate = float_0_07, threshold = 10\<rparr>)]\<rparr>"
proof -
  have once: "initialize_rules \<lparr>commission_rules = None\<rparr> =
      \<lparr>commission_rules = Some default_rules\<rparr>"
    using initialize_rules_idempotent [of "\<lparr>commission_rules = None\<rparr>"] by simp
  have twice: "initialize_rules (initialize_rules \<lparr>commission_rules = None\<rparr>) =
      initialize_rules \<lparr>commission_rules = None\<rparr>"
    using initialize_rules_idempotent [of "\<lparr>commission_rules = None\<rparr>"] by blast
  have kept: "initialize_rules
      \<lparr>commission_rules = Some [(str ''gold'', \<lparr>rate = float_0_07, threshold = 10\<rparr>)]\<rparr> =
      \<lparr>commission_rules = Some [(str ''gold'', \<lparr>rate = float_0_07, threshold = 10\<rparr>)]\<rparr>"
    using initialize_rules_idempotent
      [of "\<lparr>commission_rules = Some [(str ''gold'', \<lparr>rate = float_0_07, threshold = 10\<rparr>)]\<rparr>"]
    by simp
  from once twice kept show ?thesis by simp
qed

lemma default_keys:
  "map fst default_rules = [str ''standard'', str ''premium'', str ''enterprise'']"
  by (simp add: default_rules_def)

lemma default_keys_distinct: "distinct (map fst default_rules)"
  by (simp add: default_rules_def str_def)

subsection \<open>Removing a rule\<close>

text \<open>
  C7. With a policy set in the session state, \<^verbatim>\<open>remove_rule\<close> fails with the
  last-rule message whenever the policy set holds at most one tier, whatever the name
  given; otherwise it fails with the not-found message when the name is absent;
  otherwise it succeeds and deletes the tier: the remaining names are the old ones
  without that name, in the same order, one entry fewer, and (a dictionary's keys being
  unique) the name is absent afterwards and every other tier keeps its entry.
\<close>

theorem remove_rule_cases:
  assumes "commission_rules st = Some rs"
  shows "(length rs \<le> 1 \<longrightarrow> remove_rule st tier_name = Inr ((False, msg_last_rule), st)) \<and>
    (1 < length rs \<and> \<not> dict_contains tier_name rs \<longrightarrow>
       remove_rule st tier_name = Inr ((False, msg_not_found tier_name), st)) \<and>
    (1 < length rs \<and> dict_contains tier_name rs \<longrightarrow>
       (\<exists>rs'. remove_rule st tier_name =
                 Inr ((True, msg_removed tier_name), st\<lparr>commission_rules := Some rs'\<rparr>) \<and>
              map fst rs' = remove1 tier_name (map fst rs) \<and>
              length rs' + 1 = length rs \<and>
              (distinct (map fst rs) \<longrightarrow>
                 \<not> dict_contains tier_name rs' \<and>
                 map_of rs' = (map_of rs)(tier_name := None))))"
proof (intro conjI impI)
  assume "length rs \<le> 1"
  with assms show "remove_rule st tier_name = Inr ((False, msg_last_rule), st)"
    by (simp add: remove_rule_def get_rules_Some)
next
  assume "1 < length rs \<and> \<not> dict_contains tier_name rs"
  with assms show "remove_rule st tier_name = Inr ((False, msg_not_found tier_name), st)"
    by (simp add: remove_rule_def get_rules_Some)
next
  assume present: "1 < length rs \<and> dict_contains tier_name rs"
  then obtain rs' where rs': "dict_delitem rs tier_name = Inr rs'"
      "map fst rs' = remove1 tier_name (map fst rs)" "length rs' + 1 = length rs"
    using dict_delitem_present [of tier_name rs] by blast
  from assms present rs'(1)
  have "remove_rule st tier_name =
      Inr ((True, msg_removed tier_name), st\<lparr>commission_rules := Some rs'\<rparr>)"
    by (simp add: remove_rule_def get_rules_Some)
  moreover have "\<not> dict_contains tier_name rs'" if "distinct (map fst rs)"
    using that rs'(2) by (simp add: dict_contains_def)
  moreover have "map_of rs' = (map_of rs)(tier_name := None)" if "distinct (map fst rs)"
    using that rs'(1) by (rule map_of_dict_delitem)
  ultimately show "\<exists>rs'. remove_rule st tier_name =
                 Inr ((True, msg_removed tier_name), st\<lparr>commission_rules := Some rs'\<rparr>) \<and>
              map fst rs' = remove1 tier_name (map fst rs) \<and>
              length rs' + 1 = length rs \<and>
              (distinct (map fst rs) \<longrightarrow>
                 \<not> dict_contains tier_name rs' \<and>
                 map_of rs' = (map_of rs)(tier_name := None))"
    using rs'(2,3) by blast
qed

theorem remove_rule_cases_witness:
  "commission_rules \<lparr>commission_rules = Some default_rules\<rparr> = Some default_rules \<and>
   1 < length default_rules \<and> dict_contains (str ''premium'') default_rules \<and>
   distinct (map fst default_rules) \<and>
   (\<exists>rs'. remove_rule \<lparr>commission_rules = Some default_rules\<rparr> (str ''premium'') =
            Inr ((True, msg_removed (str ''premium'')), \<lparr>commission_rules = Some rs'\<rparr>) \<and>
          map fst rs' = [str ''standard'', str ''enterprise''] \<and>
          \<not> dict_contains (str ''premium'') rs') \<and>
   remove_rule \<lparr>commission_rules = Some default_rules\<rparr> (str ''gold'') =
     Inr ((False, msg_not_found (str ''gold'')), \<lparr>commission_rules = Some default_rules\<rparr>) \<and>
   remove_rule \<lparr>commission_rules = Some [(str ''standard'', \<lparr>rate = float_0_05, threshold = 0\<rparr>)]\<rparr>
       (str ''standard'') =
     Inr ((False, msg_last_rule),
          \<lparr>commission_rules = Some [(str ''standard'', \<lparr>rate = float_0_05, threshold = 0\<rparr>)]\<rparr>)"
proof -
  let ?st = "\<lparr>commission_rules = Some default_rules\<rparr>"
  let ?one = "[(str ''standard'', \<lparr>rate = float_0_05, threshold = 0\<rparr>)]"
  have st: "commission_rules ?st = Some default_rules"
    by simp
  have len: "1 < length default_rules"
    by (simp add: default_rules_def)
  have present: "dict_contains (str ''premium'') default_rules"
    by (simp add: dict_contains_def default_keys)
  have absent: "\<not> dict_contains (str ''gold'') default_rules"
    by (simp add: dict_contains_def default_keys str_def)
  have removed: "remove1 (str ''premium'') (map fst default_rules) =
      [str ''standard'', str ''enterprise'']"
    by (simp add: default_keys str_def)
  from remove_rule_cases [OF st, of "str ''premium''"] len present default_keys_distinct
  obtain rs' where
    "remove_rule ?st (str ''premium'') =
       Inr ((True, msg_removed (str ''premium'')), ?st\<lparr>commission_rules := Some rs'\<rparr>)"
    "map fst rs' = remove1 (str ''premium'') (map fst default_rules)"
    "\<not> dict_contains (str ''premium'') rs'"
    by blast
  with removed have success:
    "\<exists>rs'. remove_rule ?st (str ''premium'') =
            Inr ((True, msg_removed (str ''premium'')), \<lparr>commission_rules = Some rs'\<rparr>) \<and>
          map fst rs' = [str ''standard'', str ''enterprise''] \<and>
          \<not> dict_contains (str ''premium'') rs'"
    by auto
  from remove_rule_cases [OF st, of "str ''gold''"] len absent
  have not_found: "remove_rule ?st (str ''gold'') = Inr ((False, msg_not_found (str ''gold'')), ?st)"
    by blast
  have "commission_rules \<lparr>commission_rules = Some ?one\<rparr> = Some ?one"
    by simp
  from remove_rule_cases [OF this, of "str ''standard''"]
  have last: "remove_rule \<lparr>commission_rules = Some ?one\<rparr> (str ''standard'') =
      Inr ((False, msg_last_rule), \<lparr>commission_rules = Some ?one\<rparr>)"
    by simp
  from st len present default_keys_distinct success not_found last show ?thesis
    by blast
qed

subsection \<open>Failed mutations\<close>

text \<open>
  C10. Whenever \<^verbatim>\<open>add_rule\<close> or \<^verbatim>\<open>remove_rule\<close> returns \<^verbatim>\<open>success=False\<close>, the
  session state after the call is the session state before it.
\<close>

theorem failed_mutation_atomic:
  "(add_rule st tier_name rate_arg threshold_arg = Inr ((False, msg), st') \<longrightarrow> st' = st) \<and>
   (remove_rule st tier_name = Inr ((False, msg), st') \<longrightarrow> st' = st)"
  by (auto simp: add_rule_def remove_rule_def split: if_splits sum.splits)

theorem failed_mutation_atomic_witness:
  "(\<exists>msg. add_rule \<lparr>commission_rules = Some default_rules\<rparr> (str ''premium'') (PyFloat float_0_05)
            (PyInt 0) = Inr ((False, msg), \<lparr>commission_rules = Some default_rules\<rparr>)) \<and>
   (\<exists>msg. remove_rule \<lparr>commission_rules = Some default_rules\<rparr> (str ''gold'') =
            Inr ((False, msg), \<lparr>commission_rules = Some default_rules\<rparr>))"
proof -
  let ?st = "\<lparr>commission_rules = Some default_rules\<rparr>"
  have "\<exists>msg st'. add_rule ?st (str ''premium'') (PyFloat float_0_05) (PyInt 0) = Inr ((False, msg), st')"
    by (simp add: add_rule_def get_rules_def dict_contains_def default_keys str_def strip_def
        isspace_def)
  then obtain m1 s1 where
    a: "add_rule ?st (str ''premium'') (PyFloat float_0_05) (PyInt 0) = Inr ((False, m1), s1)"
    by blast
  with failed_mutation_atomic [of ?st "str ''premium''" "PyFloat float_0_05" "PyInt 0" m1 s1]
  have "s1 = ?st" by blast
  with a have add: "\<exists>msg. add_rule ?st (str ''premium'') (PyFloat float_0_05) (PyInt 0) =
      Inr ((False, msg), ?st)"
    by blast
  have "\<exists>msg st'. remove_rule ?st (str ''gold'') = Inr ((False, msg), st')"
    by (simp add: remove_rule_def get_rules_def dict_contains_def default_keys str_def
        default_rules_def)
  then obtain m2 s2 where r: "remove_rule ?st (str ''gold'') = Inr ((False, m2), s2)"
    by blast
  with failed_mutation_atomic [of ?st "str ''gold''" _ _ m2 s2]
  have "s2 = ?st" by blast
  with r have "\<exists>msg. remove_rule ?st (str ''gold'') = Inr ((False, msg), ?st)"
    by blast
  with add show ?thesis by blast
qed

subsection \<open>Conversions\<close>

lemma bitlen_gt: "2 ^ k \<le> n \<Longrightarrow> k < bitlen n"
proof (induction k arbitrary: n)
  case 0
  then show ?case by (simp add: bitlen.simps [of n])
next
  case (Suc k)
  have "(0::nat) < 2 ^ k"
    by simp
  moreover from Suc.prems have "2 * 2 ^ k \<le> n"
    by simp
  ultimately have "2 ^ k \<le> n div 2" and "n \<noteq> 0"
    by arith+
  with Suc.IH [of "n div 2"] show ?case
    by (simp add: bitlen.simps [of n])
qed

lemma pack_overflow: "971 < e \<Longrightarrow> pack s m e = Infinity s"
  by (simp add: pack_def)

text \<open>An int of absolute value \<open>2 ^ 1024\<close> or more does not convert to float.\<close>

lemma float_of_int_overflow:
  assumes "2 ^ 1024 \<le> \<bar>n\<bar>"
  shows "float_of_int n = Inl OverflowError"
proof -
  let ?m = "nat \<bar>n\<bar>"
  from assms have "2 ^ 1024 \<le> ?m"
    by (simp add: le_nat_iff)
  then have "1024 < bitlen ?m" and "?m \<noteq> 0"
    using bitlen_gt [of 1024 ?m] by auto
  then have "971 < max (0 + int (bitlen ?m) - 53) (- 1074)"
    by simp
  then have "round_at (n < 0) ?m 0 (max (0 + int (bitlen ?m) - 53) (- 1074)) = Infinity (n < 0)"
    unfolding round_at_def by (rule pack_overflow)
  with \<open>?m \<noteq> 0\<close> show ?thesis
    by (simp add: float_of_int_def round_double_def)
qed

lemma py_float_error: "py_float x = Inl e \<Longrightarrow> e = OverflowError"
  by (cases x) (auto simp: float_of_int_def split: double.splits)


subsection \<open>Adding a rule\<close>

lemma add_rule_blank:
  "strip tier_name = [] \<Longrightarrow>
     add_rule st tier_name rate_arg threshold_arg = Inr ((False, msg_enter_name), st)"
  by (simp add: add_rule_def)

lemma add_rule_present:
  "commission_rules st = Some rs \<Longrightarrow> strip tier_name \<noteq> [] \<Longrightarrow> dict_contains tier_name rs \<Longrightarrow>
     add_rule st tier_name rate_arg threshold_arg = Inr ((False, msg_exists tier_name), st)"
  by (simp add: add_rule_def get_rules_Some)

lemma add_rule_new:
  "commission_rules st = Some rs \<Longrightarrow> strip tier_name \<noteq> [] \<Longrightarrow> \<not> dict_contains tier_name rs \<Longrightarrow>
     py_float rate_arg = Inr new_rate \<Longrightarrow> py_int threshold_arg = Inr new_threshold \<Longrightarrow>
     add_rule st tier_name rate_arg threshold_arg =
       Inr ((True, msg_added tier_name),
            st\<lparr>commission_rules :=
                 Some (rs @ [(tier_name, \<lparr>rate = new_rate, threshold = new_threshold\<rparr>)])\<rparr>)"
  by (simp add: add_rule_def get_rules_Some dict_setitem_new)

lemma add_rule_rate_error:
  "commission_rules st = Some rs \<Longrightarrow> strip tier_name \<noteq> [] \<Longrightarrow> \<not> dict_contains tier_name rs \<Longrightarrow>
     py_float rate_arg = Inl e \<Longrightarrow> add_rule st tier_name rate_arg threshold_arg = Inl e"
  by (simp add: add_rule_def get_rules_Some)

lemma add_rule_threshold_error:
  "commission_rules st = Some rs \<Longrightarrow> strip tier_name \<noteq> [] \<Longrightarrow> \<not> dict_contains tier_name rs \<Longrightarrow>
     py_float rate_arg = Inr new_rate \<Longrightarrow> py_int threshold_arg = Inl e \<Longrightarrow>
     add_rule st tier_name rate_arg threshold_arg = Inl e"
  by (simp add: add_rule_def get_rules_Some)

lemma gold_absent: "\<not> dict_contains (str ''gold'') default_rules"
  by (simp add: dict_contains_def default_keys str_def)

lemma gold_not_blank: "strip (str ''gold'') \<noteq> []"
  by (simp add: strip_def str_def isspace_def)

lemma space_blank: "strip (str '' '') = []"
  by (simp add: strip_def str_def isspace_def)

lemma premium_not_blank: "strip (str ''premium'') \<noteq> []"
  by (simp add: strip_def str_def isspace_def)

lemma premium_present: "dict_contains (str ''premium'') default_rules"
  by (simp add: dict_contains_def default_keys)

lemmas float_eval = round_double_def round_at_def pack_def round_shift_def half_even_def
  bitlen.simps round_signed_def signed_def

lemma huge_int_overflow: "py_float (PyInt (10 ^ 400)) = Inl OverflowError"
proof -
  have "(2::int) ^ 1024 \<le> \<bar>10 ^ 400\<bar>"
    by simp
  then show ?thesis
    by (simp only: py_float.simps float_of_int_overflow)
qed

lemma jumbo_threshold_large: "2 ^ 1024 \<le> \<bar>jumbo_threshold\<bar>"
  by (simp add: jumbo_threshold_def)


lemma float_of_2_53_plus_1: "py_float (PyInt (2 ^ 53 + 1)) = Inr (Finite False (2 ^ 52) 1)"
  by (simp add: float_of_int_def float_eval)

lemma int_of_2_5: "py_int (PyFloat (Finite False 5629499534213120 (- 51))) = Inr 2"
  by (simp add: signed_def)

text \<open>
  C5 (amended). For every tier name that is not empty or whitespace-only and is not
  in the policy set, and every rate and threshold that \<^verbatim>\<open>float(rate)\<close> and
  \<^verbatim>\<open>int(threshold)\<close> convert, \<^verbatim>\<open>add_rule\<close> returns \<^verbatim>\<open>success=True\<close> with the confirmation
  message, appends the entry \<^verbatim>\<open>{rate: float(rate), threshold: int(threshold)}\<close> under
  that name, and \<^verbatim>\<open>get_rules\<close> afterwards returns a policy set in which the name maps to
  that entry and every other name maps to what it did before. When a conversion raises,
  \<^verbatim>\<open>add_rule\<close> raises the same exception and returns nothing.
\<close>

theorem add_rule_fresh_name:
  assumes "commission_rules st = Some rs"
    and "strip tier_name \<noteq> []"
    and "\<not> dict_contains tier_name rs"
  shows "(\<forall>new_rate new_threshold.
      py_float rate_arg = Inr new_rate \<and> py_int threshold_arg = Inr new_threshold \<longrightarrow>
      (\<exists>st' rs'.
         add_rule st tier_name rate_arg threshold_arg = Inr ((True, msg_added tier_name), st') \<and>
         get_rules st' = Inr rs' \<and>
         rs' = rs @ [(tier_name, \<lparr>rate = new_rate, threshold = new_threshold\<rparr>)] \<and>
         dict_contains tier_name rs' \<and>
         dict_getitem rs' tier_name = Inr \<lparr>rate = new_rate, threshold = new_threshold\<rparr> \<and>
         map_of rs' = (map_of rs)(tier_name \<mapsto> \<lparr>rate = new_rate, threshold = new_threshold\<rparr>))) \<and>
    (\<forall>e. py_float rate_arg = Inl e \<longrightarrow>
       add_rule st tier_name rate_arg threshold_arg = Inl e) \<and>
    (\<forall>new_rate e. py_float rate_arg = Inr new_rate \<and> py_int threshold_arg = Inl e \<longrightarrow>
       add_rule st tier_name rate_arg threshold_arg = Inl e)"
proof (intro conjI allI impI)
  fix new_rate new_threshold
  assume conv: "py_float rate_arg = Inr new_rate \<and> py_int threshold_arg = Inr new_threshold"
  let ?entry = "\<lparr>rate = new_rate, threshold = new_threshold\<rparr>"
  let ?rs' = "rs @ [(tier_name, ?entry)]"
  let ?st' = "st\<lparr>commission_rules := Some ?rs'\<rparr>"
  have "add_rule st tier_name rate_arg threshold_arg = Inr ((True, msg_added tier_name), ?st')"
    using assms conv by (simp add: add_rule_new)
  moreover have "get_rules ?st' = Inr ?rs'"
    by (simp add: get_rules_def)
  moreover have "dict_contains tier_name ?rs'"
    by (simp add: dict_contains_def)
  moreover have "map_of ?rs' = (map_of rs)(tier_name \<mapsto> ?entry)"
    using map_of_dict_setitem [of rs tier_name ?entry] assms(3)
    by (simp add: dict_setitem_new)
  moreover from this have "dict_getitem ?rs' tier_name = Inr ?entry"
    by (simp add: dict_getitem_def)
  ultimately show "\<exists>st' rs'.
         add_rule st tier_name rate_arg threshold_arg = Inr ((True, msg_added tier_name), st') \<and>
         get_rules st' = Inr rs' \<and>
         rs' = rs @ [(tier_name, \<lparr>rate = new_rate, threshold = new_threshold\<rparr>)] \<and>
         dict_contains tier_name rs' \<and>
         dict_getitem rs' tier_name = Inr \<lparr>rate = new_rate, threshold = new_threshold\<rparr> \<and>
         map_of rs' = (map_of rs)(tier_name \<mapsto> \<lparr>rate = new_rate, threshold = new_threshold\<rparr>)"
    by blast
next
  fix e
  assume "py_float rate_arg = Inl e"
  with assms show "add_rule st tier_name rate_arg threshold_arg = Inl e"
    by (simp add: add_rule_rate_error)
next
  fix new_rate e
  assume "py_float rate_arg = Inr new_rate \<and> py_int threshold_arg = Inl e"
  with assms show "add_rule st tier_name rate_arg threshold_arg = Inl e"
    by (simp add: add_rule_threshold_error)
qed

theorem add_rule_fresh_name_witness:
  "commission_rules \<lparr>commission_rules = Some default_rules\<rparr> = Some default_rules \<and>
   strip (str ''gold'') \<noteq> [] \<and> \<not> dict_contains (str ''gold'') default_rules \<and>
   py_float (PyInt (2 ^ 53 + 1)) = Inr (Finite False (2 ^ 52) 1) \<and>
   py_int (PyFloat (Finite False 5629499534213120 (- 51))) = Inr 2 \<and>
   (\<exists>st'. add_rule \<lparr>commission_rules = Some default_rules\<rparr> (str ''gold'') (PyInt (2 ^ 53 + 1))
            (PyFloat (Finite False 5629499534213120 (- 51))) =
            Inr ((True, msg_added (str ''gold'')), st') \<and>
          get_rules st' =
            Inr (default_rules @
                 [(str ''gold'', \<lparr>rate = Finite False (2 ^ 52) 1, threshold = 2\<rparr>)]))"
proof -
  let ?st = "\<lparr>commission_rules = Some default_rules\<rparr>"
  have st: "commission_rules ?st = Some default_rules"
    by simp
  from add_rule_fresh_name [OF st gold_not_blank gold_absent,
      of "PyInt (2 ^ 53 + 1)" "PyFloat (Finite False 5629499534213120 (- 51))"]
    float_of_2_53_plus_1 int_of_2_5
  obtain st' rs' where
    "add_rule ?st (str ''gold'') (PyInt (2 ^ 53 + 1))
       (PyFloat (Finite False 5629499534213120 (- 51))) =
       Inr ((True, msg_added (str ''gold'')), st')"
    "get_rules st' = Inr rs'"
    "rs' = default_rules @ [(str ''gold'', \<lparr>rate = Finite False (2 ^ 52) 1, threshold = 2\<rparr>)]"
    by blast
  then have "\<exists>st'. add_rule ?st (str ''gold'') (PyInt (2 ^ 53 + 1))
            (PyFloat (Finite False 5629499534213120 (- 51))) =
            Inr ((True, msg_added (str ''gold'')), st') \<and>
          get_rules st' =
            Inr (default_rules @
                 [(str ''gold'', \<lparr>rate = Finite False (2 ^ 52) 1, threshold = 2\<rparr>)])"
    by blast
  with st gold_not_blank gold_absent float_of_2_53_plus_1 int_of_2_5 show ?thesis
    by blast
qed

text \<open>
  The name has to be non-blank and the conversions have to succeed: a single space is
  not a key of the default policy set and \<^verbatim>\<open>add_rule\<close> refuses it; the name
  \<^verbatim>\<open>gold\<close> is not a key either, and with the rate \<^verbatim>\<open>10 ** 400\<close> the call raises
  \<^verbatim>\<open>OverflowError\<close>.
\<close>

theorem add_rule_blank_name_counterexample:
  "\<not> dict_contains (str '' '') default_rules \<and>
   add_rule \<lparr>commission_rules = Some default_rules\<rparr> (str '' '') (PyFloat float_0_05) (PyInt 0) =
     Inr ((False, msg_enter_name), \<lparr>commission_rules = Some default_rules\<rparr>) \<and>
   \<not> dict_contains (str ''gold'') default_rules \<and>
   add_rule \<lparr>commission_rules = Some default_rules\<rparr> (str ''gold'') (PyInt (10 ^ 400)) (PyInt 0) =
     Inl OverflowError"
proof -
  have "\<not> dict_contains (str '' '') default_rules"
    by (simp add: dict_contains_def default_keys str_def)
  moreover have "add_rule \<lparr>commission_rules = Some default_rules\<rparr> (str '' '')
      (PyFloat float_0_05) (PyInt 0) =
      Inr ((False, msg_enter_name), \<lparr>commission_rules = Some default_rules\<rparr>)"
    using space_blank by (rule add_rule_blank)
  moreover have "add_rule \<lparr>commission_rules = Some default_rules\<rparr> (str ''gold'')
      (PyInt (10 ^ 400)) (PyInt 0) = Inl OverflowError"
    by (rule add_rule_rate_error [OF _ gold_not_blank gold_absent huge_int_overflow]) simp
  ultimately show ?thesis
    using gold_absent by blast
qed

text \<open>
  C6 (amended). With a policy set in the session state, \<^verbatim>\<open>add_rule\<close> returns
  \<^verbatim>\<open>success=False\<close> exactly when the name is blank (empty or made of whitespace only) or
  is already a key of the policy set, and then the session state is unchanged. A blank
  name gets the missing-name message; a non-blank name that is already a key gets the
  duplicate message, and so does every name that is already a key when no key of the
  policy set is blank. In every other case the call succeeds with the confirmation
  message when \<^verbatim>\<open>float(rate)\<close> and \<^verbatim>\<open>int(threshold)\<close> convert, and raises the
  conversion's exception when one does not.
\<close>

theorem add_rule_failure_cases:
  assumes "commission_rules st = Some rs"
  shows "((\<exists>msg st'. add_rule st tier_name rate_arg threshold_arg = Inr ((False, msg), st')) \<longleftrightarrow>
           strip tier_name = [] \<or> dict_contains tier_name rs) \<and>
    (strip tier_name = [] \<longleftrightarrow> (\<forall>c \<in> set tier_name. isspace c)) \<and>
    (strip tier_name = [] \<longrightarrow>
       add_rule st tier_name rate_arg threshold_arg = Inr ((False, msg_enter_name), st)) \<and>
    (strip tier_name \<noteq> [] \<and> dict_contains tier_name rs \<longrightarrow>
       add_rule st tier_name rate_arg threshold_arg = Inr ((False, msg_exists tier_name), st)) \<and>
    ((\<forall>k \<in> set (map fst rs). strip k \<noteq> []) \<and> dict_contains tier_name rs \<longrightarrow>
       add_rule st tier_name rate_arg threshold_arg = Inr ((False, msg_exists tier_name), st)) \<and>
    (strip tier_name \<noteq> [] \<and> \<not> dict_contains tier_name rs \<longrightarrow>
       ((\<exists>new_rate new_threshold.
           py_float rate_arg = Inr new_rate \<and> py_int threshold_arg = Inr new_threshold) \<longrightarrow>
        (\<exists>st'. add_rule st tier_name rate_arg threshold_arg =
                 Inr ((True, msg_added tier_name), st'))) \<and>
       (\<not> (\<exists>new_rate new_threshold.
           py_float rate_arg = Inr new_rate \<and> py_int threshold_arg = Inr new_threshold) \<longrightarrow>
        (\<exists>e. add_rule st tier_name rate_arg threshold_arg = Inl e)))"
proof -
  have blank: "add_rule st tier_name rate_arg threshold_arg = Inr ((False, msg_enter_name), st)"
    if "strip tier_name = []"
    using that by (rule add_rule_blank)
  have present: "add_rule st tier_name rate_arg threshold_arg =
      Inr ((False, msg_exists tier_name), st)"
    if "strip tier_name \<noteq> []" and "dict_contains tier_name rs"
    using assms that by (rule add_rule_present)
  have new: "\<exists>st'. add_rule st tier_name rate_arg threshold_arg =
      Inr ((True, msg_added tier_name), st')"
    if "strip tier_name \<noteq> []" and "\<not> dict_contains tier_name rs"
      and "\<exists>new_rate new_threshold.
        py_float rate_arg = Inr new_rate \<and> py_int threshold_arg = Inr new_threshold"
    using add_rule_new [OF assms that(1,2)] that(3) by blast
  have raises: "\<exists>e. add_rule st tier_name rate_arg threshold_arg = Inl e"
    if "strip tier_name \<noteq> []" and "\<not> dict_contains tier_name rs"
      and "\<not> (\<exists>new_rate new_threshold.
        py_float rate_arg = Inr new_rate \<and> py_int threshold_arg = Inr new_threshold)"
  proof (cases "py_float rate_arg")
    case (Inl e)
    with add_rule_rate_error [OF assms that(1,2)] show ?thesis by blast
  next
    case (Inr new_rate)
    with that(3) obtain e where "py_int threshold_arg = Inl e"
      by (cases "py_int threshold_arg") auto
    with add_rule_threshold_error [OF assms that(1,2) Inr] show ?thesis by blast
  qed
  have no_blank_key: "strip tier_name \<noteq> []"
    if "\<forall>k \<in> set (map fst rs). strip k \<noteq> []" and "dict_contains tier_name rs"
    using that by (auto simp: dict_contains_def)
  have not_false: "\<not> (\<exists>msg st'. add_rule st tier_name rate_arg threshold_arg =
      Inr ((False, msg), st'))"
    if "strip tier_name \<noteq> []" and "\<not> dict_contains tier_name rs"
  proof (cases "\<exists>new_rate new_threshold.
        py_float rate_arg = Inr new_rate \<and> py_int threshold_arg = Inr new_threshold")
    case True
    with new that obtain st' where
      "add_rule st tier_name rate_arg threshold_arg = Inr ((True, msg_added tier_name), st')"
      by blast
    then show ?thesis by simp
  next
    case False
    with raises that obtain e where "add_rule st tier_name rate_arg threshold_arg = Inl e"
      by blast
    then show ?thesis by simp
  qed
  have fails: "(\<exists>msg st'. add_rule st tier_name rate_arg threshold_arg = Inr ((False, msg), st')) \<longleftrightarrow>
      strip tier_name = [] \<or> dict_contains tier_name rs"
  proof (cases "strip tier_name = []")
    case True
    with blank show ?thesis by simp
  next
    case not_blank: False
    show ?thesis
    proof (cases "dict_contains tier_name rs")
      case True
      with present not_blank show ?thesis by simp
    next
      case False
      with not_false not_blank show ?thesis by simp
    qed
  qed
  from fails blank present new raises no_blank_key strip_empty_iff [of tier_name]
  show ?thesis by blast
qed

theorem add_rule_failure_cases_witness:
  "commission_rules \<lparr>commission_rules = Some default_rules\<rparr> = Some default_rules \<and>
   strip (str '' '') = [] \<and>
   add_rule \<lparr>commission_rules = Some default_rules\<rparr> (str '' '') (PyFloat float_0_05) (PyInt 0) =
     Inr ((False, msg_enter_name), \<lparr>commission_rules = Some default_rules\<rparr>) \<and>
   strip (str ''premium'') \<noteq> [] \<and> dict_contains (str ''premium'') default_rules \<and>
   add_rule \<lparr>commission_rules = Some default_rules\<rparr> (str ''premium'') (PyFloat float_0_05)
       (PyInt 0) =
     Inr ((False, msg_exists (str ''premium'')), \<lparr>commission_rules = Some default_rules\<rparr>) \<and>
   strip (str ''gold'') \<noteq> [] \<and> \<not> dict_contains (str ''gold'') default_rules \<and>
   (\<exists>st'. add_rule \<lparr>commission_rules = Some default_rules\<rparr> (str ''gold'') (PyFloat float_0_05)
            (PyInt 0) = Inr ((True, msg_added (str ''gold'')), st')) \<and>
   (\<exists>e. add_rule \<lparr>commission_rules = Some default_rules\<rparr> (str ''gold'') (PyInt (10 ^ 400))
            (PyInt 0) = Inl e)"
proof -
  let ?st = "\<lparr>commission_rules = Some default_rules\<rparr>"
  have st: "commission_rules ?st = Some default_rules"
    by simp
  from add_rule_failure_cases [OF st, of "str '' ''" "PyFloat float_0_05" "PyInt 0"] space_blank
  have blank: "add_rule ?st (str '' '') (PyFloat float_0_05) (PyInt 0) =
      Inr ((False, msg_enter_name), ?st)"
    by blast
  from add_rule_failure_cases [OF st, of "str ''premium''" "PyFloat float_0_05" "PyInt 0"]
    premium_not_blank premium_present
  have present: "add_rule ?st (str ''premium'') (PyFloat float_0_05) (PyInt 0) =
      Inr ((False, msg_exists (str ''premium'')), ?st)"
    by blast
  have conv: "\<exists>new_rate new_threshold.
      py_float (PyFloat float_0_05) = Inr new_rate \<and> py_int (PyInt 0) = Inr new_threshold"
    by simp
  from add_rule_failure_cases [OF st, of "str ''gold''" "PyFloat float_0_05" "PyInt 0"]
    gold_not_blank gold_absent conv
  have new: "\<exists>st'. add_rule ?st (str ''gold'') (PyFloat float_0_05) (PyInt 0) =
      Inr ((True, msg_added (str ''gold'')), st')"
    by blast
  have no_conv: "\<not> (\<exists>new_rate new_threshold.
      py_float (PyInt (10 ^ 400)) = Inr new_rate \<and> py_int (PyInt 0) = Inr new_threshold)"
    using huge_int_overflow by simp
  from add_rule_failure_cases [OF st, of "str ''gold''" "PyInt (10 ^ 400)" "PyInt 0"]
    gold_not_blank gold_absent no_conv
  have raises: "\<exists>e. add_rule ?st (str ''gold'') (PyInt (10 ^ 400)) (PyInt 0) = Inl e"
    by blast
  from st space_blank blank premium_not_blank premium_present present gold_not_blank
    gold_absent new raises
  show ?thesis by blast
qed

text \<open>
  A non-blank name that is not a key does not always succeed: with the rate
  \<^verbatim>\<open>10 ** 400\<close> the call raises \<^verbatim>\<open>OverflowError\<close>.
\<close>

theorem add_rule_overflow_counterexample:
  "strip (str ''gold'') \<noteq> [] \<and> \<not> dict_contains (str ''gold'') default_rules \<and>
   add_rule \<lparr>commission_rules = Some default_rules\<rparr> (str ''gold'') (PyInt (10 ^ 400)) (PyInt 0) =
     Inl OverflowError"
proof -
  have "add_rule \<lparr>commission_rules = Some default_rules\<rparr> (str ''gold'')
      (PyInt (10 ^ 400)) (PyInt 0) = Inl OverflowError"
    by (rule add_rule_rate_error [OF _ gold_not_blank gold_absent huge_int_overflow]) simp
  with gold_not_blank gold_absent show ?thesis by blast
qed

subsection \<open>The invariant of the policy set\<close>

lemma add_rule_invariant:
  assumes "policy_invariant st"
  shows "policy_invariant (apply_operation st (Add_rule tier_name rate_arg threshold_arg))"
proof -
  from assms obtain rs where rs: "commission_rules st = Some rs" "rs \<noteq> []"
      "distinct (map fst rs)"
    by (auto simp: policy_invariant_def split: option.splits)
  show ?thesis
  proof (cases "add_rule st tier_name rate_arg threshold_arg")
    case (Inl e)
    with assms show ?thesis by simp
  next
    case (Inr res)
    obtain ok msg st' where res: "res = ((ok, msg), st')"
      by (cases res) auto
    show ?thesis
    proof (cases "strip tier_name \<noteq> [] \<and> \<not> dict_contains tier_name rs")
      case True
      with Inr res rs(1) obtain new_rate new_threshold where
        "st' = st\<lparr>commission_rules :=
            Some (dict_setitem rs tier_name \<lparr>rate = new_rate, threshold = new_threshold\<rparr>)\<rparr>"
        by (auto simp: add_rule_def get_rules_Some split: sum.splits)
      with rs(3) have "policy_invariant st'"
        by (simp add: policy_invariant_def dict_setitem_not_Nil distinct_dict_setitem)
      with Inr res show ?thesis by simp
    next
      case False
      with rs(1) have "\<exists>m. add_rule st tier_name rate_arg threshold_arg = Inr ((False, m), st)"
        by (cases "strip tier_name = []") (auto simp: add_rule_blank add_rule_present)
      with Inr res assms show ?thesis by auto
    qed
  qed
qed

lemma remove_rule_invariant:
  assumes "policy_invariant st"
  shows "policy_invariant (apply_operation st (Remove_rule tier_name))"
proof -
  from assms obtain rs where rs: "commission_rules st = Some rs" "rs \<noteq> []"
      "distinct (map fst rs)"
    by (auto simp: policy_invariant_def split: option.splits)
  show ?thesis
  proof (cases "1 < length rs \<and> dict_contains tier_name rs")
    case True
    then obtain rs' where rs': "dict_delitem rs tier_name = Inr rs'"
        "map fst rs' = remove1 tier_name (map fst rs)" "length rs' + 1 = length rs"
      using dict_delitem_present [of tier_name rs] by blast
    from rs(1) True rs'(1) have "remove_rule st tier_name =
        Inr ((True, msg_removed tier_name), st\<lparr>commission_rules := Some rs'\<rparr>)"
      by (simp add: remove_rule_def get_rules_Some)
    moreover from True rs'(3) have "rs' \<noteq> []"
      by auto
    moreover from rs(3) rs'(2) have "distinct (map fst rs')"
      by simp
    ultimately show ?thesis
      by (simp add: policy_invariant_def)
  next
    case False
    with rs(1) have "\<exists>msg. remove_rule st tier_name = Inr ((False, msg), st)"
      by (auto simp: remove_rule_def get_rules_Some)
    with assms show ?thesis by auto
  qed
qed

lemma apply_operation_invariant:
  "policy_invariant st \<Longrightarrow> policy_invariant (apply_operation st x)"
  by (cases x) (simp_all only: add_rule_invariant remove_rule_invariant)

lemma default_invariant: "policy_invariant \<lparr>commission_rules = Some default_rules\<rparr>"
  using default_keys_distinct by (simp add: policy_invariant_def default_rules_def)

text \<open>
  With a policy set in the session state, \<^verbatim>\<open>remove_rule\<close> never raises, and \<^verbatim>\<open>add_rule\<close>
  raises nothing but the exception of a failed conversion.
\<close>

lemma remove_rule_returns:
  "commission_rules st = Some rs \<Longrightarrow> \<exists>res. remove_rule st tier_name = Inr res"
proof (cases "1 < length rs \<and> dict_contains tier_name rs")
  case True
  then obtain rs' where "dict_delitem rs tier_name = Inr rs'"
    using dict_delitem_present [of tier_name rs] by blast
  with True show ?thesis
    if "commission_rules st = Some rs"
    using that by (auto simp: remove_rule_def get_rules_Some)
next
  case False
  then show ?thesis
    if "commission_rules st = Some rs"
    using that by (auto simp: remove_rule_def get_rules_Some)
qed

lemma add_rule_raises:
  "commission_rules st = Some rs \<Longrightarrow> add_rule st tier_name rate_arg threshold_arg = Inl e \<Longrightarrow>
     py_float rate_arg = Inl e \<or> py_int threshold_arg = Inl e"
  by (auto simp: add_rule_def get_rules_Some split: if_splits sum.splits)

lemma run_example:
  "run_operations \<lparr>commission_rules = Some default_rules\<rparr>
     [Remove_rule (str ''premium''), Remove_rule (str ''enterprise''),
      Remove_rule (str ''standard''), Add_rule (str ''gold'') (PyInt (2 ^ 53 + 1)) (PyInt 10),
      Add_rule (str ''gold'') (PyFloat float_0_07) (PyInt 20),
      Add_rule (str ''silver'') (PyFloat float_0_07) (PyFloat NaN),
      Add_rule (str '' '') (PyInt 1) (PyInt 1), Remove_rule (str ''standard'')] =
   \<lparr>commission_rules = Some [(str ''gold'', \<lparr>rate = Finite False (2 ^ 52) 1, threshold = 10\<rparr>)]\<rparr>"
  by (simp add: add_rule_def remove_rule_def get_rules_def dict_contains_def default_rules_def
      str_def strip_def isspace_def float_of_int_def float_eval)

text \<open>
  C4. From a session state whose policy set is non-empty and has unique tier names,
  every finite sequence of \<^verbatim>\<open>add_rule\<close> and \<^verbatim>\<open>remove_rule\<close> calls, whatever their
  arguments and whether or not a call raises, ends in a session state whose policy set
  is again non-empty and has unique tier names.
\<close>

theorem run_operations_invariant:
  "policy_invariant st \<Longrightarrow> policy_invariant (run_operations st xs)"
proof (induction xs arbitrary: st)
  case Nil
  then show ?case by simp
next
  case (Cons x xs)
  from Cons.prems have "policy_invariant (apply_operation st x)"
    by (rule apply_operation_invariant)
  then have "policy_invariant (run_operations (apply_operation st x) xs)"
    by (rule Cons.IH)
  then show ?case by simp
qed

theorem run_operations_invariant_witness:
  "policy_invariant \<lparr>commission_rules = Some default_rules\<rparr> \<and>
   run_operations \<lparr>commission_rules = Some default_rules\<rparr>
     [Remove_rule (str ''premium''), Remove_rule (str ''enterprise''),
      Remove_rule (str ''standard''), Add_rule (str ''gold'') (PyInt (2 ^ 53 + 1)) (PyInt 10),
      Add_rule (str ''gold'') (PyFloat float_0_07) (PyInt 20),
      Add_rule (str ''silver'') (PyFloat float_0_07) (PyFloat NaN),
      Add_rule (str '' '') (PyInt 1) (PyInt 1), Remove_rule (str ''standard'')] =
     \<lparr>commission_rules = Some [(str ''gold'', \<lparr>rate = Finite False (2 ^ 52) 1, threshold = 10\<rparr>)]\<rparr> \<and>
   policy_invariant
     \<lparr>commission_rules = Some [(str ''gold'', \<lparr>rate = Finite False (2 ^ 52) 1, threshold = 10\<rparr>)]\<rparr>"
  using default_invariant run_example
    run_operations_invariant [OF default_invariant,
      of "[Remove_rule (str ''premium''), Remove_rule (str ''enterprise''),
      Remove_rule (str ''standard''), Add_rule (str ''gold'') (PyInt (2 ^ 53 + 1)) (PyInt 10),
      Add_rule (str ''gold'') (PyFloat float_0_07) (PyInt 20),
      Add_rule (str ''silver'') (PyFloat float_0_07) (PyFloat NaN),
      Add_rule (str '' '') (PyInt 1) (PyInt 1), Remove_rule (str ''standard'')]"]
  by simp

text \<open>
  Blank names never enter the store: when no key of the policy set is blank, none is
  after a run of operations. The default policy set has no blank key.
\<close>

lemma apply_operation_no_blank:
  assumes "commission_rules st = Some rs"
    and "\<forall>k \<in> set (map fst rs). strip k \<noteq> []"
  shows "\<exists>rs'. commission_rules (apply_operation st x) = Some rs' \<and>
           (\<forall>k \<in> set (map fst rs'). strip k \<noteq> [])"
proof (cases x)
  case (Add_rule tier_name rate_arg threshold_arg)
  show ?thesis
  proof (cases "add_rule st tier_name rate_arg threshold_arg")
    case (Inl e)
    with assms Add_rule show ?thesis by simp
  next
    case (Inr res)
    obtain ok msg st' where res: "res = ((ok, msg), st')"
      by (cases res) auto
    show ?thesis
    proof (cases "strip tier_name \<noteq> [] \<and> \<not> dict_contains tier_name rs")
      case True
      with Inr res assms(1) obtain new_rate new_threshold where
        "st' = st\<lparr>commission_rules :=
            Some (rs @ [(tier_name, \<lparr>rate = new_rate, threshold = new_threshold\<rparr>)])\<rparr>"
        by (auto simp: add_rule_def get_rules_Some dict_setitem_new split: sum.splits)
      with Inr res Add_rule assms(2) True show ?thesis by auto
    next
      case False
      with assms(1) have "\<exists>m. add_rule st tier_name rate_arg threshold_arg = Inr ((False, m), st)"
        by (cases "strip tier_name = []") (auto simp: add_rule_blank add_rule_present)
      with Inr res assms Add_rule show ?thesis by auto
    qed
  qed
next
  case (Remove_rule tier_name)
  show ?thesis
  proof (cases "1 < length rs \<and> dict_contains tier_name rs")
    case True
    then obtain rs' where rs': "dict_delitem rs tier_name = Inr rs'"
        "map fst rs' = remove1 tier_name (map fst rs)"
      using dict_delitem_present [of tier_name rs] by blast
    from assms(1) True rs'(1) have "remove_rule st tier_name =
        Inr ((True, msg_removed tier_name), st\<lparr>commission_rules := Some rs'\<rparr>)"
      by (simp add: remove_rule_def get_rules_Some)
    with Remove_rule have "commission_rules (apply_operation st x) = Some rs'"
      by simp
    moreover from rs'(2) have "set (map fst rs') \<subseteq> set (map fst rs)"
      by (metis set_remove1_subset)
    ultimately show ?thesis using assms(2) by blast
  next
    case False
    with assms(1) have "\<exists>msg. remove_rule st tier_name = Inr ((False, msg), st)"
      by (auto simp: remove_rule_def get_rules_Some)
    with assms Remove_rule show ?thesis by auto
  qed
qed

lemma run_operations_no_blank:
  "commission_rules st = Some rs \<Longrightarrow> \<forall>k \<in> set (map fst rs). strip k \<noteq> [] \<Longrightarrow>
     \<exists>rs'. commission_rules (run_operations st xs) = Some rs' \<and>
          (\<forall>k \<in> set (map fst rs'). strip k \<noteq> [])"
proof (induction xs arbitrary: st rs)
  case Nil
  then show ?case by simp
next
  case (Cons x xs)
  from apply_operation_no_blank [OF Cons.prems, of x] obtain rs1 where
    "commission_rules (apply_operation st x) = Some rs1"
    "\<forall>k \<in> set (map fst rs1). strip k \<noteq> []"
    by blast
  then have "\<exists>rs'. commission_rules (run_operations (apply_operation st x) xs) = Some rs' \<and>
      (\<forall>k \<in> set (map fst rs'). strip k \<noteq> [])"
    by (rule Cons.IH)
  then show ?case by simp
qed

lemma default_no_blank: "\<forall>k \<in> set (map fst default_rules). strip k \<noteq> []"
  by (simp add: default_keys strip_def str_def isspace_def)

section \<open>Binary64 arithmetic of the examples\<close>

text \<open>
  Each float literal is within half a unit in the last place of the decimal written,
  and is a double.
\<close>

lemma literals_nearest:
  "\<bar>double_value float_0_05 - 0.05\<bar> < pow2 (- 58)"
  "\<bar>double_value float_0_07 - 0.07\<bar> < pow2 (- 57)"
  "\<bar>double_value float_0_10 - 0.10\<bar> < pow2 (- 57)"
  "\<bar>double_value float_1_2 - 1.2\<bar> < pow2 (- 53)"
  "\<bar>double_value float_1_1 - 1.1\<bar> < pow2 (- 53)"
  "\<bar>double_value float_0_001 - 0.001\<bar> < pow2 (- 63)"
  "\<bar>double_value float_0_15 - 0.15\<bar> < pow2 (- 56)"
  "\<bar>double_value float_0_049 - 0.049\<bar> < pow2 (- 58)"
  "\<bar>double_value float_0_055 - 0.055\<bar> < pow2 (- 58)"
  "\<bar>double_value float_0_45 - 0.45\<bar> < pow2 (- 55)"
  by (simp_all add: float_0_05_def float_0_07_def float_0_10_def float_1_2_def float_1_1_def
      float_0_001_def float_0_15_def float_0_049_def float_0_055_def float_0_45_def pow2_def)

lemma literals_valid:
  "valid_double float_0_05" "valid_double float_0_07" "valid_double float_0_10"
  "valid_double float_1_2" "valid_double float_1_1" "valid_double float_0_001"
  "valid_double float_0_15" "valid_double float_0_049" "valid_double float_0_055"
  "valid_double float_0_45"
  by (simp_all add: valid_double_def float_0_05_def float_0_07_def float_0_10_def float_1_2_def
      float_1_1_def float_0_001_def float_0_15_def float_0_049_def float_0_055_def
      float_0_45_def)

text \<open>\<^verbatim>\<open>0.05 * 1.1\<close> is the double next above \<^verbatim>\<open>0.055\<close>.\<close>

lemma mul_0_05_1_1: "double_mul float_0_05 float_1_1 = Finite False 7926335344172074 (- 57)"
  by (simp add: float_0_05_def float_1_1_def float_eval)

text \<open>\<^verbatim>\<open>100000 * 1.2\<close> is \<^verbatim>\<open>120000.0\<close> and \<^verbatim>\<open>0 * 1.2\<close> is \<^verbatim>\<open>0.0\<close>.\<close>

lemma mul_100000_1_2:
  "mul_float (PyInt 100000) float_1_2 = Inr (Finite False 8246337208320000 (- 36))"
  by (simp add: mul_float_def float_of_int_def float_1_2_def float_eval)

lemma value_120000: "double_value (Finite False 8246337208320000 (- 36)) = 120000"
  by (simp add: pow2_def)

lemma mul_0_1_2: "mul_float (PyInt 0) float_1_2 = Inr (Finite False 0 (- 1074))"
  by (simp add: mul_float_def float_of_int_def float_1_2_def float_eval)

section \<open>The validator\<close>

subsection \<open>The expected rate\<close>

lemma mul_float_int:
  "mul_float (PyInt n) y =
     (case float_of_int n of Inl e \<Rightarrow> Inl e | Inr t \<Rightarrow> Inr (double_mul t y))"
  by (simp add: mul_float_def)

lemma mul_float_error: "mul_float x y = Inl e \<Longrightarrow> e = OverflowError \<and> py_float x = Inl OverflowError"
  by (auto simp: mul_float_def split: sum.splits dest: py_float_error)

lemma sub_float_error: "sub_float x y = Inl e \<Longrightarrow> e = OverflowError \<and> py_float x = Inl OverflowError"
  by (auto simp: sub_float_def split: sum.splits dest: py_float_error)

lemma get_expected_rate_Some:
  "commission_rules st = Some rs \<Longrightarrow> map_of rs tier = Some p \<Longrightarrow>
     get_expected_rate st dsize tier =
       (case mul_float (PyInt (threshold p)) float_1_2 of
          Inl e \<Rightarrow> Inl e
        | Inr limit \<Rightarrow>
           Inr (if py_greater dsize (PyFloat limit) then double_mul (rate p) float_1_1
                else rate p))"
  by (simp add: get_expected_rate_def get_rules_Some dict_getitem_def split: sum.splits)

text \<open>
  C2 (amended). For every deal size and every tier of the policy set whose threshold
  converts to float, \<^verbatim>\<open>_get_expected_rate\<close> returns the binary64 product of the tier's
  base rate and 1.1 when the deal size is greater than the binary64 product of the
  threshold and 1.2, and the base rate itself otherwise; when the threshold is an int
  beyond the range of float (\<open>2 ^ 1024\<close> or more in absolute value, for one) it raises
  \<^verbatim>\<open>OverflowError\<close>. For a tier with rate 0.05 and threshold 100000 the product
  \<^verbatim>\<open>100000 * 1.2\<close> is exactly 120000.0, so the function returns 0.05 at 120000 (the
  comparison is strict) and \<^verbatim>\<open>0.05 * 1.1\<close> at 120001, which is the double
  0.05500000000000001, the next above 0.055.
\<close>

theorem get_expected_rate_accelerator:
  assumes "commission_rules st = Some rs"
    and "map_of rs tier = Some p"
  shows "(\<forall>limit. mul_float (PyInt (threshold p)) float_1_2 = Inr limit \<longrightarrow>
            (py_greater dsize (PyFloat limit) \<longrightarrow>
               get_expected_rate st dsize tier = Inr (double_mul (rate p) float_1_1)) \<and>
            (\<not> py_greater dsize (PyFloat limit) \<longrightarrow>
               get_expected_rate st dsize tier = Inr (rate p))) \<and>
         ((\<exists>e. mul_float (PyInt (threshold p)) float_1_2 = Inl e) \<longrightarrow>
            get_expected_rate st dsize tier = Inl OverflowError) \<and>
         (2 ^ 1024 \<le> \<bar>threshold p\<bar> \<longrightarrow> get_expected_rate st dsize tier = Inl OverflowError) \<and>
         (rate p = float_0_05 \<and> threshold p = 100000 \<longrightarrow>
            mul_float (PyInt (threshold p)) float_1_2 =
              Inr (Finite False 8246337208320000 (- 36)) \<and>
            double_value (Finite False 8246337208320000 (- 36)) = 120000 \<and>
            get_expected_rate st (PyInt 120000) tier = Inr float_0_05 \<and>
            get_expected_rate st (PyInt 120001) tier =
              Inr (Finite False 7926335344172074 (- 57)))"
proof (intro conjI allI impI)
  fix limit
  assume "mul_float (PyInt (threshold p)) float_1_2 = Inr limit"
    and "py_greater dsize (PyFloat limit)"
  with assms show "get_expected_rate st dsize tier = Inr (double_mul (rate p) float_1_1)"
    by (simp add: get_expected_rate_Some)
next
  fix limit
  assume "mul_float (PyInt (threshold p)) float_1_2 = Inr limit"
    and "\<not> py_greater dsize (PyFloat limit)"
  with assms show "get_expected_rate st dsize tier = Inr (rate p)"
    by (simp add: get_expected_rate_Some)
next
  assume "\<exists>e. mul_float (PyInt (threshold p)) float_1_2 = Inl e"
  then obtain e where e: "mul_float (PyInt (threshold p)) float_1_2 = Inl e"
    by blast
  then have "e = OverflowError"
    by (simp add: mul_float_error)
  with assms e show "get_expected_rate st dsize tier = Inl OverflowError"
    by (simp add: get_expected_rate_Some)
next
  assume "2 ^ 1024 \<le> \<bar>threshold p\<bar>"
  then have "mul_float (PyInt (threshold p)) float_1_2 = Inl OverflowError"
    by (simp add: mul_float_int float_of_int_overflow)
  with assms show "get_expected_rate st dsize tier = Inl OverflowError"
    by (simp add: get_expected_rate_Some)
next
  assume "rate p = float_0_05 \<and> threshold p = 100000"
  then show "mul_float (PyInt (threshold p)) float_1_2 =
      Inr (Finite False 8246337208320000 (- 36))"
    by (simp only: mul_100000_1_2)
next
  show "double_value (Finite False 8246337208320000 (- 36)) = 120000"
    by (rule value_120000)
next
  assume p: "rate p = float_0_05 \<and> threshold p = 100000"
  have "\<not> py_greater (PyInt 120000) (PyFloat (Finite False 8246337208320000 (- 36)))"
    by (simp add: py_greater_def py_less_def pow2_def)
  with assms p show "get_expected_rate st (PyInt 120000) tier = Inr float_0_05"
    by (simp add: get_expected_rate_Some mul_100000_1_2)
next
  assume p: "rate p = float_0_05 \<and> threshold p = 100000"
  have "py_greater (PyInt 120001) (PyFloat (Finite False 8246337208320000 (- 36)))"
    by (simp add: py_greater_def py_less_def pow2_def)
  with assms p show "get_expected_rate st (PyInt 120001) tier =
      Inr (Finite False 7926335344172074 (- 57))"
    by (simp add: get_expected_rate_Some mul_100000_1_2 mul_0_05_1_1)
qed

theorem get_expected_rate_accelerator_witness:
  "get_expected_rate boundary_state (PyInt 120000) (str ''premium'') = Inr float_0_05 \<and>
   get_expected_rate boundary_state (PyInt 120001) (str ''premium'') =
     Inr (Finite False 7926335344172074 (- 57)) \<and>
   get_expected_rate boundary_state (PyFloat (Finite False 8246337208320001 (- 36)))
     (str ''premium'') = Inr (Finite False 7926335344172074 (- 57)) \<and>
   get_expected_rate jumbo_state (PyInt 1) (str ''jumbo'') = Inl OverflowError"
proof -
  let ?p = "\<lparr>rate = float_0_05, threshold = 100000\<rparr>"
  have st: "commission_rules boundary_state = Some [(str ''premium'', ?p)]"
    by (simp add: boundary_state_def)
  have p: "map_of [(str ''premium'', ?p)] (str ''premium'') = Some ?p"
    by simp
  have rt: "rate ?p = float_0_05 \<and> threshold ?p = 100000"
    by simp
  have limit: "mul_float (PyInt (threshold ?p)) float_1_2 =
      Inr (Finite False 8246337208320000 (- 36))"
    by (simp add: mul_100000_1_2)
  have above: "py_greater (PyFloat (Finite False 8246337208320001 (- 36)))
      (PyFloat (Finite False 8246337208320000 (- 36)))"
    by (simp add: py_greater_def py_less_def pow2_def)
  from get_expected_rate_accelerator [OF st p, of "PyInt 1"] rt
  have a: "get_expected_rate boundary_state (PyInt 120000) (str ''premium'') = Inr float_0_05"
    and b: "get_expected_rate boundary_state (PyInt 120001) (str ''premium'') =
      Inr (Finite False 7926335344172074 (- 57))"
    by blast+
  from get_expected_rate_accelerator
    [OF st p, of "PyFloat (Finite False 8246337208320001 (- 36))"] limit above
  have "get_expected_rate boundary_state (PyFloat (Finite False 8246337208320001 (- 36)))
      (str ''premium'') = Inr (double_mul (rate ?p) float_1_1)"
    by blast
  then have c: "get_expected_rate boundary_state (PyFloat (Finite False 8246337208320001 (- 36)))
      (str ''premium'') = Inr (Finite False 7926335344172074 (- 57))"
    by (simp add: mul_0_05_1_1)
  let ?j = "\<lparr>rate = float_0_05, threshold = jumbo_threshold\<rparr>"
  have jst: "commission_rules jumbo_state = Some [(str ''jumbo'', ?j)]"
    by (simp add: jumbo_state_def)
  have jp: "map_of [(str ''jumbo'', ?j)] (str ''jumbo'') = Some ?j"
    by simp
  have "(2::int) ^ 1024 \<le> \<bar>threshold ?j\<bar>"
    using jumbo_threshold_large by simp
  with get_expected_rate_accelerator [OF jst jp, of "PyInt 1"]
  have d: "get_expected_rate jumbo_state (PyInt 1) (str ''jumbo'') = Inl OverflowError"
    by blast
  from a b c d show ?thesis by blast
qed

text \<open>
  At 120001 the function does not return 0.055: the double of the decimal 0.055 is
  \<open>float_0_055\<close>, and the value returned is the next double above it.
\<close>

theorem get_expected_rate_0_055_counterexample:
  "get_expected_rate boundary_state (PyInt 120001) (str ''premium'') =
     Inr (Finite False 7926335344172074 (- 57)) \<and>
   Finite False 7926335344172074 (- 57) \<noteq> float_0_055 \<and>
   \<bar>double_value float_0_055 - 0.055\<bar> < pow2 (- 58) \<and>
   py_greater (PyFloat (Finite False 7926335344172074 (- 57))) (PyFloat float_0_055) \<and>
   0.055 < double_value (Finite False 7926335344172074 (- 57))"
proof -
  have "get_expected_rate boundary_state (PyInt 120001) (str ''premium'') =
      Inr (Finite False 7926335344172074 (- 57))"
    by (simp add: boundary_state_def get_expected_rate_Some [where p = "\<lparr>rate = float_0_05, threshold = 100000\<rparr>"]
        mul_100000_1_2 mul_0_05_1_1 py_greater_def py_less_def pow2_def)
  moreover have "Finite False 7926335344172074 (- 57) \<noteq> float_0_055"
    by (simp add: float_0_055_def)
  moreover have "py_greater (PyFloat (Finite False 7926335344172074 (- 57))) (PyFloat float_0_055)"
    by (simp add: py_greater_def py_less_def pow2_def float_0_055_def)
  moreover have "0.055 < double_value (Finite False 7926335344172074 (- 57))"
    by (simp add: pow2_def)
  ultimately show ?thesis
    using literals_nearest(9) by blast
qed

subsection \<open>Validation of a record\<close>

lemma validate_unknown:
  "commission_rules st = Some rs \<Longrightarrow> \<not> dict_contains (product_tier r) rs \<Longrightarrow>
     validate st r = Inr [msg_unknown_tier (product_tier r)]"
  by (simp add: validate_def get_rules_Some)

text \<open>
  C3. For a record whose product tier is not a key of the policy set, \<^verbatim>\<open>validate\<close>
  returns exactly one issue, the unknown-tier message naming that tier; the result
  depends on no other field of the record.
\<close>

theorem validate_unknown_tier:
  assumes "commission_rules st = Some rs"
    and "\<not> dict_contains (product_tier r) rs"
  shows "validate st r = Inr [str ''Unknown product tier: '' @ product_tier r] \<and>
         issue_count st r = 1 \<and>
         (\<forall>r'. product_tier r' = product_tier r \<longrightarrow> validate st r' = validate st r)"
  using assms by (simp add: validate_unknown issue_count_def msg_unknown_tier_def)

theorem validate_unknown_tier_witness:
  "commission_rules \<lparr>commission_rules = Some default_rules\<rparr> = Some default_rules \<and>
   \<not> dict_contains (str ''gold'') default_rules \<and>
   validate \<lparr>commission_rules = Some default_rules\<rparr>
     \<lparr>deal_id = str ''DEAL_0001'', sales_rep = str ''John Smith'', region = str ''Europe'',
      product_tier = str ''gold'', deal_size = PyInt (- 5), commission_rate = PyFloat NaN,
      commission_amount = PyInt 1000\<rparr> = Inr [str ''Unknown product tier: gold'']"
proof -
  let ?st = "\<lparr>commission_rules = Some default_rules\<rparr>"
  let ?r = "\<lparr>deal_id = str ''DEAL_0001'', sales_rep = str ''John Smith'', region = str ''Europe'',
      product_tier = str ''gold'', deal_size = PyInt (- 5), commission_rate = PyFloat NaN,
      commission_amount = PyInt 1000\<rparr>"
  have st: "commission_rules ?st = Some default_rules"
    by simp
  have absent: "\<not> dict_contains (product_tier ?r) default_rules"
    using gold_absent by simp
  from validate_unknown_tier [OF st absent]
  have "validate ?st ?r = Inr [str ''Unknown product tier: '' @ str ''gold'']"
    by simp
  then have "validate ?st ?r = Inr [str ''Unknown product tier: gold'']"
    by (simp add: str_def)
  with st gold_absent show ?thesis by blast
qed





lemmas num_eval = float_eval float_of_int_def py_greater_def py_less_def pow2_def double_sub_def
  fixed3_def str_nat.simps float_0_05_def float_1_2_def float_1_1_def float_0_001_def
  float_0_15_def float_0_049_def float_0_055_def float_0_45_def

lemmas validate_eval = validate_def get_rules_def dict_contains_def default_rules_def
  get_expected_rate_def dict_getitem_def mul_float_def sub_float_def msg_rate_mismatch_def
  format_num_3f_def msg_cap_def msg_negative_def str_def




lemma validate_deal_rate_0_049:
  "validate default_state deal_rate_0_049 = Inr [str ''Rate mismatch: expected 0.050, got 0.049'']"
  by (simp add: default_state_def deal_rate_0_049_def validate_eval num_eval)

lemma validate_deal_cap_0_45:
  "validate default_state deal_cap_0_45 = Inr [str ''Commission exceeds 15% cap'']"
  by (simp add: default_state_def deal_cap_0_45_def validate_eval num_eval)





section \<open>Batch metrics\<close>






section \<open>Checks of the arithmetic against CPython\<close>

text \<open>
  Values that CPython computes, reproduced here: \<^verbatim>\<open>7 * 1.2 == 8.4\<close>,
  \<^verbatim>\<open>3 * 1.2 == 3.5999999999999996\<close>, \<^verbatim>\<open>3 * 0.15 == 0.44999999999999996\<close>,
  \<^verbatim>\<open>7 * 0.15 == 1.05\<close>, \<^verbatim>\<open>0.075 * 1.1\<close> printed as \<^verbatim>\<open>0.083\<close>,
  \<^verbatim>\<open>abs(0.049 - 0.05) > 0.001\<close>, \<^verbatim>\<open>0.1 + 0.2 == 0.30000000000000004\<close>,
  \<^verbatim>\<open>1e16 + 1.0 == 1e16\<close>, \<^verbatim>\<open>1e308 * 10.0 == inf\<close>, the smallest subnormal times 0.5
  and 0.75, \<^verbatim>\<open>int(-2.5) == -2\<close>, \<^verbatim>\<open>float(2**53 + 1) == 9007199254740992.0\<close>, and the
  formats of \<^verbatim>\<open>-0.0\<close>, \<^verbatim>\<open>0.0005\<close>, \<^verbatim>\<open>0.0625\<close>, \<^verbatim>\<open>0.1875\<close> and \<^verbatim>\<open>5\<close>.
\<close>

lemma python_products:
  "mul_float (PyInt 7) float_1_2 = Inr (Finite False 4728779608739021 (- 49))"
  "mul_float (PyInt 3) float_1_2 = Inr (Finite False 8106479329266892 (- 51))"
  "mul_float (PyInt 3) float_0_15 = Inr (Finite False 8106479329266892 (- 54))"
  "mul_float (PyInt 7) float_0_15 = Inr (Finite False 4728779608739021 (- 52))"
  "double_mul (Finite False 5404319552844595 (- 56)) float_1_1 =
     Finite False 5944751508129055 (- 56)"
  "double_mul (Finite False 5010420900022432 971) (Finite False 5629499534213120 (- 49)) =
     Infinity False"
  "double_mul (Finite False 1 (- 1074)) (Finite False 4503599627370496 (- 53)) =
     Finite False 0 (- 1074)"
  "double_mul (Finite True 1 (- 1074)) (Finite False 6755399441055744 (- 53)) =
     Finite True 1 (- 1074)"
  by (simp_all add: mul_float_def num_eval)

lemma python_literals:
  "\<bar>double_value (Finite False 4728779608739021 (- 49)) - 8.4\<bar> < pow2 (- 50)"
  "\<bar>double_value (Finite False 8106479329266893 (- 51)) - 3.6\<bar> < pow2 (- 52)"
  "\<bar>double_value (Finite False 4728779608739021 (- 52)) - 1.05\<bar> < pow2 (- 53)"
  "\<bar>double_value (Finite False 5404319552844595 (- 56)) - 0.075\<bar> < pow2 (- 57)"
  by (simp_all add: pow2_def)

lemma python_sums:
  "double_sub float_0_049 float_0_05 = Finite True 4611686018427392 (- 62)"
  "py_greater (PyFloat (double_abs (double_sub float_0_049 float_0_05))) (PyFloat float_0_001)"
  "double_add float_0_10 (Finite False 7205759403792794 (- 55)) =
     Finite False 5404319552844596 (- 54)"
  "double_add (Finite False 5000000000000000 1) (Finite False 4503599627370496 (- 52)) =
     Finite False 5000000000000000 1"
  "double_sub (Finite False 0 (- 1074)) (Finite False 0 (- 1074)) = Finite False 0 (- 1074)"
  "double_sub (Finite True 0 (- 1074)) (Finite False 0 (- 1074)) = Finite True 0 (- 1074)"
  by (simp_all add: num_eval float_0_10_def)

lemma python_conversions:
  "py_int (PyFloat (Finite True 5629499534213120 (- 51))) = Inr (- 2)"
  "py_int (PyFloat NaN) = Inl ValueError"
  "py_int (PyFloat (Infinity True)) = Inl OverflowError"
  "py_float (PyInt (2 ^ 53 + 1)) = Inr (Finite False 4503599627370496 1)"
  "py_float (PyInt (- 3)) = Inr (Finite True 6755399441055744 (- 51))"
  by (simp_all add: num_eval)

lemma python_formats:
  "format_3f (Finite True 0 (- 1074)) = str ''-0.000''"
  "format_3f (Finite False 4611686018427388 (- 63)) = str ''0.001''"
  "format_3f (Finite False 4503599627370496 (- 56)) = str ''0.062''"
  "format_3f (Finite False 6755399441055744 (- 55)) = str ''0.188''"
  "format_3f (Finite False 5944751508129055 (- 56)) = str ''0.083''"
  "format_3f (Infinity True) = str ''-inf''"
  "format_3f NaN = str ''nan''"
  "format_num_3f (PyInt 5) = Inr (str ''5.000'')"
  by (simp_all add: format_num_3f_def num_eval str_def)

end
